theory Spec2Isabelle
  imports Complex_Main
begin

section \<open>Attendance admission engine: data model\<close>

text \<open>
  The development embeds \<^verbatim>\<open>markAttendance\<close> and \<^verbatim>\<open>forceMarkAttendance\<close> of
  \<^verbatim>\<open>src/controllers/attendanceController.ts\<close>.

  Conventions of the embedding:
  \<^item> An instant (a JavaScript \<^verbatim>\<open>Date\<close>) is its number of milliseconds since the epoch,
    an \<open>int\<close>. Local time is UTC plus a fixed offset (no daylight saving).
  \<^item> A JavaScript number that reaches the controller from the request body or from the
    verification service is a \<open>jsnum\<close>: a finite value (an exact real standing for the
    double), \<^verbatim>\<open>NaN\<close>, or an infinity. Quotients of instants are exact.
  \<^item> The request body is untyped JSON: its fields are \<open>json\<close> values, and the
    controller's \<^verbatim>\<open>typeof\<close> tests are case distinctions on that type.
  \<^item> Documents read from the database are typed as their schemas type them: records with
    the fields the controller reads.
  \<^item> Every \<^verbatim>\<open>return res.status(..).json(..)\<close> is a \<open>response\<close>; the database is
    passed in and returned; the calls that leave the process (database reads and writes,
    the location verification service) are logged in order in a list of \<open>effect\<close>s.
  \<^item> Database calls succeed, except the settings lookup, whose failure the controller
    handles itself; so the outer \<^verbatim>\<open>catch\<close> (500, ``Server error'') has no path here.
  \<^item> Console logging is not modelled.
\<close>

subsection \<open>JavaScript values\<close>

datatype jsnum = Fin real | NaN | PosInf | NegInf

text \<open>
  A JavaScript string is a sequence of UTF-16 code units. The strings whose characters the
  controller inspects (the device id and the user agent, which it trims) are lists of code
  units, each a number; \<open>utf16\<close> gives the code units of a text written in
  Latin-1, where a character is one code unit with the character's code. Property names,
  identifiers, names and messages, which the controller only compares or passes on, are
  \<open>string\<close>s.
\<close>

type_synonym jsstring = "nat list"

definition utf16 :: "string \<Rightarrow> jsstring" where
  "utf16 s = map of_char s"

datatype json =
    JUndefined
  | JNull
  | JBool bool
  | JNumber jsnum
  | JString jsstring
  | JArray "json list"
  | JObject "(string \<times> json) list"

text \<open>Property read \<^verbatim>\<open>v.k\<close> on a value that is already known to be truthy.\<close>

fun getProp :: "json \<Rightarrow> string \<Rightarrow> json" where
  "getProp (JObject kvs) k = (case map_of kvs k of None \<Rightarrow> JUndefined | Some v \<Rightarrow> v)"
| "getProp _ k = JUndefined"

text \<open>\<^verbatim>\<open>!v || typeof v !== 'object'\<close> is false exactly on arrays and objects.\<close>

fun isObject :: "json \<Rightarrow> bool" where
  "isObject (JObject _) = True"
| "isObject (JArray _) = True"
| "isObject _ = False"

text \<open>\<^verbatim>\<open>typeof v === 'number'\<close>; note that \<^verbatim>\<open>typeof NaN\<close> is \<^verbatim>\<open>'number'\<close>.\<close>

fun asNumber :: "json \<Rightarrow> jsnum option" where
  "asNumber (JNumber n) = Some n"
| "asNumber _ = None"

fun asString :: "json \<Rightarrow> jsstring option" where
  "asString (JString s) = Some s"
| "asString _ = None"

text \<open>
  \<^verbatim>\<open>s.trim() === ''\<close>: the string consists only of code units that
  \<^verbatim>\<open>String.prototype.trim\<close> strips. These are the white space and the line
  terminators of ECMAScript: tab, line feed, vertical tab, form feed, carriage return,
  space, no-break space (U+00A0), the other space separators of Unicode (U+1680, U+2000 to
  U+200A, U+202F, U+205F, U+3000), the line and paragraph separators (U+2028, U+2029) and
  the byte order mark (U+FEFF). All of them are single code units.
\<close>

definition isWhiteSpace :: "nat \<Rightarrow> bool" where
  "isWhiteSpace c \<longleftrightarrow>
     c \<in> set [0x09, 0x0A, 0x0B, 0x0C, 0x0D, 0x20, 0xA0, 0x1680, 0x2028, 0x2029, 0x202F, 0x205F,
              0x3000, 0xFEFF]
     \<or> (0x2000 \<le> c \<and> c \<le> 0x200A)"

definition trimIsEmpty :: "jsstring \<Rightarrow> bool" where
  "trimIsEmpty s \<longleftrightarrow> list_all isWhiteSpace s"

text \<open>Comparisons of a number with a finite constant; every comparison with \<^verbatim>\<open>NaN\<close> is false.\<close>

fun num_le :: "jsnum \<Rightarrow> real \<Rightarrow> bool" where
  "num_le (Fin x) c = (x \<le> c)"
| "num_le NegInf c = True"
| "num_le _ c = False"

fun num_gt :: "jsnum \<Rightarrow> real \<Rightarrow> bool" where
  "num_gt (Fin x) c = (x > c)"
| "num_gt PosInf c = True"
| "num_gt _ c = False"

text \<open>\<^verbatim>\<open>n === 0\<close> (true for both zeros).\<close>

fun num_is_zero :: "jsnum \<Rightarrow> bool" where
  "num_is_zero (Fin x) = (x = 0)"
| "num_is_zero _ = False"

text \<open>JavaScript's \<^verbatim>\<open>%\<close> on integers: the remainder takes the sign of the dividend.\<close>

definition js_rem :: "int \<Rightarrow> int \<Rightarrow> int" where
  "js_rem a b = (if a \<ge> 0 then a mod \<bar>b\<bar> else - ((- a) mod \<bar>b\<bar>))"

subsection \<open>Documents\<close>

datatype frequency = OneTime | Daily | Weekly | Monthly

datatype session_type = PHYSICAL | REMOTE | HYBRID

datatype assignment_mode = PHYSICAL_MODE | REMOTE_MODE

record assigned_user =
  au_userId :: string
  mode :: assignment_mode
  attendanceStatus :: string
  au_isLate :: bool

text \<open>
  The location descriptor of a session, as the test suite's \<^verbatim>\<open>MockSessionInstance\<close>
  declares it: \<^verbatim>\<open>location: { type: 'COORDS' | 'LINK', geolocation?, link? } | null\<close> and the
  legacy top-level \<^verbatim>\<open>geolocation\<close>.
\<close>

datatype location_kind = COORDS | LINK

record location_descriptor =
  loc_type :: location_kind
  loc_geolocation :: "(real \<times> real) option"
  loc_link :: "string option"

type_synonym polygon = "real list list list"

text \<open>
  A session document. \<open>startHour\<close> and \<open>startMinute\<close> are the two numbers that
  \<^verbatim>\<open>session.startTime.split(':').map(Number)\<close> yields for a stored \<^verbatim>\<open>HH:mm\<close> string;
  an absent \<^verbatim>\<open>weeklyDays\<close> is the empty list (the controller treats both alike).
\<close>

record session =
  frequency :: frequency
  startDate :: int
  endDate :: "int option"
  startHour :: int
  startMinute :: int
  weeklyDays :: "string list"
  sessionType :: session_type
  assignedUsers :: "assigned_user list"
  sessionCity :: "string option"
  sessionState :: "string option"
  geofence :: "polygon option"
  location :: "location_descriptor option"
  geolocation :: "(real \<times> real) option"

record user =
  email :: string
  registeredDeviceId :: "jsstring option"
  registeredUserAgent :: "jsstring option"

record reverse_geocode =
  rg_city :: string
  rg_state :: string
  rg_locality :: string
  rg_district :: string
  rg_pincode :: string
  rg_fullAddress :: string

text \<open>
  \<^verbatim>\<open>LocationVerificationResult\<close> of the verification service. The controller re-checks
  at run time that the numeric fields are numbers and that the snapshot is present, so
  these fields are optional here.
\<close>

record LocationVerificationResult =
  isValid :: bool
  confidenceScore :: "jsnum option"
  accuracyRadius :: "jsnum option"
  reverseGeocode :: "reverse_geocode option"
  geofenceResult :: "(bool \<times> jsnum) option"

record attendance =
  a_userId :: string
  a_sessionId :: string
  checkInTime :: int
  locationVerified :: bool
  isLate :: bool
  lateByMinutes :: "int option"
  a_userLocation :: "(jsnum \<times> jsnum) option"
  a_deviceId :: jsstring
  reverseGeocodeSnapshot :: "reverse_geocode option"
  a_confidenceScore :: "jsnum option"
  a_accuracyRadius :: "jsnum option"

record settings =
  lateAttendanceLimit :: real
  isStrictAttendance :: "bool option"

text \<open>
  What \<^verbatim>\<open>OrganizationSettings.findOne\<close> does: it throws, resolves to \<^verbatim>\<open>null\<close>, or
  resolves to a settings document.
\<close>

datatype settings_lookup = SettingsUnavailable | NoSettings | FoundSettings settings

record db =
  users :: "string \<rightharpoonup> user"
  sessions :: "string \<rightharpoonup> session"
  attendances :: "attendance list"
  orgSettings :: settings_lookup

subsection \<open>Requests, responses, effects\<close>

text \<open>
  \<open>validationErrors\<close> is \<^verbatim>\<open>validationResult(req).array()\<close> (the route's validators are
  not part of the controller); \<open>userId\<close> and \<open>role\<close> come from the authenticated
  identity \<^verbatim>\<open>req.user\<close>, the other fields from \<^verbatim>\<open>req.body\<close>.
\<close>

record request =
  validationErrors :: "string list"
  userId :: string
  role :: string
  sessionId :: string
  userLocation :: json
  deviceId :: json
  userAgent :: json
  accuracy :: json

datatype reason =
    VALIDATION_ERRORS "string list"
  | MISSING_DEVICE_ID
  | MISSING_USER_AGENT
  | MISSING_LOCATION
  | INVALID_LOCATION_COORDS
  | INVALID_LOCATION_ZERO
  | MISSING_ACCURACY
  | INVALID_ACCURACY
  | PLATFORM_OWNER_FORBIDDEN
  | INVALID_SESSION_ID
  | USER_NOT_FOUND
  | SESSION_NOT_FOUND
  | NOT_SCHEDULED_TODAY
  | ALREADY_MARKED
  | TOO_EARLY string string int int
  | WINDOW_CLOSED_STRICT int int
  | NOT_ASSIGNED
  | MAPMYINDIA_VERIFICATION_FAILED string
  | LOCATION_VERIFICATION_FAILED
  | MISSING_VERIFICATION_RESULT
  | DEVICE_MISMATCH
  | CLONING_DETECTED
  | LOCATION_NOT_VERIFIED
  | INVALID_VERIFICATION_RESULT
  | INCOMPLETE_VERIFICATION_DATA
  | INTERNAL_ERROR
  | SERVER_ERROR
  | SESSION_LOCATION_NOT_CONFIGURED
  | NOT_PLATFORM_OWNER
  | INVALID_USER_ID
  | INVALID_STATUS

text \<open>
  \<open>Rejected (Reject status reason)\<close> is \<^verbatim>\<open>res.status(status)\<close> with the body the
  controller sends on that exit. A reason is named after the body's \<^verbatim>\<open>reason\<close> (or
  \<^verbatim>\<open>type\<close>) field where there is one, and after its message otherwise; \<open>TOO_EARLY\<close> carries \<^verbatim>\<open>sessionStartTime\<close>,
  \<^verbatim>\<open>scanWindowStartTime\<close>, \<^verbatim>\<open>hoursRemaining\<close>, \<^verbatim>\<open>minutesRemaining\<close>;
  \<open>WINDOW_CLOSED_STRICT\<close> the minutes and seconds of the message. \<open>Created a\<close> is the
  201 response with the new record, \<open>ForceMarked status\<close> the 200 response of
  \<^verbatim>\<open>forceMarkAttendance\<close>. The controller has no exit that sends
  \<open>SESSION_LOCATION_NOT_CONFIGURED\<close>; the reason code is the one its test suite expects.
\<close>

datatype rejection = Reject nat reason

datatype response = Created attendance | Rejected rejection | ForceMarked string

datatype effect =
    FetchSettings
  | FindUserAndSession
  | FindAttendance
  | VerifyLocation jsnum jsnum jsnum "string option" "string option" "polygon option"
  | SaveUser
  | SaveAttendance
  | SaveSession
  | DeleteAttendance
  | AuditLogCreate

record outcome =
  response :: response
  db_after :: db
  effects :: "effect list"

text \<open>
  The surroundings of one request: the clock reading \<^verbatim>\<open>new Date()\<close>; the offset of
  the server's local time zone from UTC in milliseconds (a fixed offset; the source's
  comment says the server runs in UTC, offset 0); \<^verbatim>\<open>mongoose.Types.ObjectId.isValid\<close>;
  the verification service \<^verbatim>\<open>verifyLocation\<close>, which either throws an error with a
  message (\<open>Inl\<close>) or returns a result (possibly \<^verbatim>\<open>null\<close>); and
  \<^verbatim>\<open>Date.prototype.toLocaleTimeString('en-US', ...)\<close>.
\<close>

record env =
  nowUTC :: int
  tzOffset :: int
  isValidObjectId :: "string \<Rightarrow> bool"
  verifyLocation :: "jsnum \<Rightarrow> jsnum \<Rightarrow> jsnum \<Rightarrow> string option \<Rightarrow> string option
      \<Rightarrow> polygon option \<Rightarrow> string + LocationVerificationResult option"
  toLocaleTimeString :: "int \<Rightarrow> string"

definition respond :: "response \<Rightarrow> db \<Rightarrow> effect list \<Rightarrow> outcome" where
  "respond r d effs = \<lparr>response = r, db_after = d, effects = effs\<rparr>"

definition reject :: "rejection \<Rightarrow> db \<Rightarrow> effect list \<Rightarrow> outcome" where
  "reject r d effs = respond (Rejected r) d effs"

section \<open>markAttendance\<close>

subsection \<open>Field validation (source lines 33--124)\<close>

record validated =
  v_deviceId :: jsstring
  v_userAgent :: jsstring
  v_latitude :: jsnum
  v_longitude :: jsnum
  v_accuracyRadius :: jsnum

text \<open>
  Lines 54 and 62: \<^verbatim>\<open>!x || typeof x !== 'string' || x.trim() === ''\<close> fails exactly on a string
  that is not blank; the string itself (untrimmed) is what the controller goes on with.
\<close>

definition validDeviceString :: "json \<Rightarrow> jsstring option" where
  "validDeviceString v =
     (case asString v of
        None \<Rightarrow> None
      | Some s \<Rightarrow> if trimIsEmpty s then None else Some s)"

text \<open>Lines 70--93: the location object and its coordinates.\<close>

definition checkUserLocation :: "json \<Rightarrow> rejection + jsnum \<times> jsnum" where
  "checkUserLocation loc =
     (if \<not> isObject loc then Inl (Reject 400 MISSING_LOCATION)
      else (case asNumber (getProp loc ''latitude'') of
              None \<Rightarrow> Inl (Reject 400 INVALID_LOCATION_COORDS)
            | Some lat \<Rightarrow>
                (case asNumber (getProp loc ''longitude'') of
                   None \<Rightarrow> Inl (Reject 400 INVALID_LOCATION_COORDS)
                 | Some lng \<Rightarrow>
                     (if num_is_zero lat \<and> num_is_zero lng
                      then Inl (Reject 400 INVALID_LOCATION_ZERO)
                      else Inr (lat, lng)))))"

text \<open>Lines 95--111: the accuracy radius.\<close>

definition checkAccuracy :: "json \<Rightarrow> rejection + jsnum" where
  "checkAccuracy a =
     (case asNumber a of
        None \<Rightarrow> Inl (Reject 400 MISSING_ACCURACY)
      | Some acc \<Rightarrow>
          (if acc = NaN then Inl (Reject 400 MISSING_ACCURACY)
           else if num_le acc 0 \<or> num_gt acc 1000 then Inl (Reject 400 INVALID_ACCURACY)
           else Inr acc))"

definition validateRequest :: "request \<Rightarrow> rejection + validated" where
  "validateRequest req =
     (if validationErrors req \<noteq> []
      then Inl (Reject 400 (VALIDATION_ERRORS (validationErrors req)))
      else (case validDeviceString (deviceId req) of
              None \<Rightarrow> Inl (Reject 400 MISSING_DEVICE_ID)
            | Some dev \<Rightarrow>
                (case validDeviceString (userAgent req) of
                   None \<Rightarrow> Inl (Reject 400 MISSING_USER_AGENT)
                 | Some ua \<Rightarrow>
                     (case checkUserLocation (userLocation req) of
                        Inl r \<Rightarrow> Inl r
                      | Inr (lat, lng) \<Rightarrow>
                          (case checkAccuracy (accuracy req) of
                             Inl r \<Rightarrow> Inl r
                           | Inr acc \<Rightarrow>
                               Inr \<lparr>v_deviceId = dev, v_userAgent = ua, v_latitude = lat,
                                    v_longitude = lng, v_accuracyRadius = acc\<rparr>)))))"

subsection \<open>Clock and local time\<close>

text \<open>
  Local time is UTC plus the fixed offset \<open>tz\<close>. \<open>startOfLocalDay tz t\<close> is local
  midnight of the local day of \<open>t\<close>; it is what
  \<^verbatim>\<open>new Date(d.getFullYear(), d.getMonth(), d.getDate())\<close> builds (for years from 100 on,
  where the \<^verbatim>\<open>Date\<close> constructor takes the year as it is). \<open>setHours tz t h m s ms\<close> is
  the time value after \<^verbatim>\<open>d.setHours(h, m, s, ms)\<close>, \<open>getDay tz t\<close> is \<^verbatim>\<open>d.getDay()\<close>
  (1 January 1970 was a Thursday).
\<close>

definition IST_OFFSET_MS :: int where
  "IST_OFFSET_MS = 19800000"

definition msPerDay :: int where
  "msPerDay = 86400000"

definition startOfLocalDay :: "int \<Rightarrow> int \<Rightarrow> int" where
  "startOfLocalDay tz t = t - (t + tz) mod msPerDay"

definition setHours :: "int \<Rightarrow> int \<Rightarrow> int \<Rightarrow> int \<Rightarrow> int \<Rightarrow> int \<Rightarrow> int" where
  "setHours tz t h m s ms = startOfLocalDay tz t + h * 3600000 + m * 60000 + s * 1000 + ms"

definition getDay :: "int \<Rightarrow> int \<Rightarrow> nat" where
  "getDay tz t = nat (((t + tz) div msPerDay + 4) mod 7)"

definition dayNames :: "string list" where
  "dayNames = [''Sunday'', ''Monday'', ''Tuesday'', ''Wednesday'', ''Thursday'', ''Friday'',
               ''Saturday'']"

text \<open>Lines 159--166.\<close>

definition nowInIST :: "env \<Rightarrow> int" where
  "nowInIST e = nowUTC e + IST_OFFSET_MS"

definition todayIST :: "env \<Rightarrow> int" where
  "todayIST e = startOfLocalDay (tzOffset e) (nowInIST e)"

subsection \<open>Organization settings (lines 133--145)\<close>

definition fetchSettings :: "settings_lookup \<Rightarrow> real \<times> bool" where
  "fetchSettings l =
     (case l of
        FoundSettings st \<Rightarrow>
          (lateAttendanceLimit st, (case isStrictAttendance st of None \<Rightarrow> False | Some b \<Rightarrow> b))
      | NoSettings \<Rightarrow> (30, False)
      | SettingsUnavailable \<Rightarrow> (30, False))"

subsection \<open>Schedule (lines 172--215)\<close>

definition isSessionDateToday :: "env \<Rightarrow> session \<Rightarrow> bool" where
  "isSessionDateToday e s =
     (if frequency s = OneTime
      then setHours (tzOffset e) (startDate s) 0 0 0 0 = todayIST e
      else
        (let sessionStartDate = setHours (tzOffset e) (startDate s) 0 0 0 0;
             sessionEndDate = map_option (\<lambda>d. setHours (tzOffset e) d 23 59 59 999) (endDate s);
             isWithinDateRange =
               (todayIST e \<ge> sessionStartDate \<and>
                (case sessionEndDate of None \<Rightarrow> True | Some d \<Rightarrow> todayIST e \<le> d))
         in if isWithinDateRange
            then (if frequency s = Weekly \<and> weeklyDays s \<noteq> []
                  then dayNames ! getDay (tzOffset e) (nowInIST e) \<in> set (weeklyDays s)
                  else True)
            else False))"

subsection \<open>Duplicate check (lines 217--250)\<close>

definition todayStartUTC :: "env \<Rightarrow> int" where
  "todayStartUTC e = setHours (tzOffset e) (todayIST e) 0 0 0 0 - IST_OFFSET_MS"

definition todayEndUTC :: "env \<Rightarrow> int" where
  "todayEndUTC e = setHours (tzOffset e) (todayIST e) 23 59 59 999 - IST_OFFSET_MS"

definition existingAttendance :: "env \<Rightarrow> session \<Rightarrow> string \<Rightarrow> string \<Rightarrow> attendance list
    \<Rightarrow> attendance option" where
  "existingAttendance e s uid sid atts =
     (if frequency s = OneTime
      then find (\<lambda>a. a_userId a = uid \<and> a_sessionId a = sid) atts
      else find (\<lambda>a. a_userId a = uid \<and> a_sessionId a = sid \<and>
                      todayStartUTC e \<le> checkInTime a \<and> checkInTime a \<le> todayEndUTC e) atts)"

subsection \<open>Scan window and lateness (lines 252--337)\<close>

definition sessionStartDateTime :: "env \<Rightarrow> session \<Rightarrow> int" where
  "sessionStartDateTime e s =
     (if frequency s = OneTime
      then setHours (tzOffset e) (startDate s) (startHour s) (startMinute s) 0 0
      else setHours (tzOffset e) (todayIST e) (startHour s) (startMinute s) 0 0)"

definition EARLY_WINDOW_HOURS :: int where
  "EARLY_WINDOW_HOURS = 2"

definition scanWindowStart :: "env \<Rightarrow> session \<Rightarrow> int" where
  "scanWindowStart e s = sessionStartDateTime e s - EARLY_WINDOW_HOURS * 60 * 60 * 1000"

text \<open>
  \<^verbatim>\<open>Math.floor(a / b)\<close> on integers \<open>a\<close> and positive \<open>b\<close> is \<open>a div b\<close>. The early
  check returns the rejection if there is one.
\<close>

definition earlyCheck :: "env \<Rightarrow> session \<Rightarrow> rejection option" where
  "earlyCheck e s =
     (if nowInIST e < scanWindowStart e s
      then
        (let timeTillWindowMs = scanWindowStart e s - nowInIST e;
             hoursRemaining = timeTillWindowMs div (1000 * 60 * 60);
             minutesRemaining = js_rem timeTillWindowMs (1000 * 60 * 60) div (1000 * 60)
         in Some (Reject 400
              (TOO_EARLY (toLocaleTimeString e (sessionStartDateTime e s))
                         (toLocaleTimeString e (scanWindowStart e s))
                         hoursRemaining minutesRemaining)))
      else None)"

text \<open>
  The late marking: a rejection in strict mode, otherwise the pair \<^verbatim>\<open>isLate\<close>,
  \<^verbatim>\<open>lateByMinutes\<close>. \<^verbatim>\<open>timeDifferenceMinutes\<close> is a quotient of numbers, compared with
  the configured limit as a number.
\<close>

definition lateMarking :: "real \<Rightarrow> bool \<Rightarrow> env \<Rightarrow> session \<Rightarrow> rejection + bool \<times> int option" where
  "lateMarking lateLimit strict e s =
     (let timeDifferenceMs = nowInIST e - sessionStartDateTime e s;
          timeDifferenceMinutes = real_of_int timeDifferenceMs / (1000 * 60);
          timeDifferenceSeconds = js_rem timeDifferenceMs (1000 * 60) div 1000
      in if timeDifferenceMinutes > 0 \<and> timeDifferenceMinutes \<le> lateLimit
         then Inr (True, Some \<lfloor>timeDifferenceMinutes\<rfloor>)
         else if timeDifferenceMinutes > lateLimit
         then (if strict
               then Inl (Reject 400
                      (WINDOW_CLOSED_STRICT \<lfloor>timeDifferenceMinutes\<rfloor> timeDifferenceSeconds))
               else Inr (True, Some \<lfloor>timeDifferenceMinutes\<rfloor>))
         else Inr (False, None))"

subsection \<open>Location verification gate (lines 339--513)\<close>

definition findAssignment :: "session \<Rightarrow> string \<Rightarrow> assigned_user option" where
  "findAssignment s uid = find (\<lambda>u. au_userId u = uid) (assignedUsers s)"

definition isLocationRequired :: "session \<Rightarrow> assigned_user \<Rightarrow> bool" where
  "isLocationRequired s a =
     (if sessionType s = PHYSICAL then True
      else if sessionType s = HYBRID then (if mode a = PHYSICAL_MODE then True else False)
      else False)"

text \<open>
  \<^verbatim>\<open>typeof r.confidenceScore !== 'number' || typeof r.accuracyRadius !== 'number' ||
  !r.reverseGeocode\<close>, negated.
\<close>

definition verificationDataPresent :: "LocationVerificationResult \<Rightarrow> bool" where
  "verificationDataPresent r \<longleftrightarrow>
     confidenceScore r \<noteq> None \<and> accuracyRadius r \<noteq> None \<and> reverseGeocode r \<noteq> None"

definition verifyCall :: "session \<Rightarrow> validated \<Rightarrow> effect" where
  "verifyCall s v =
     VerifyLocation (v_latitude v) (v_longitude v) (v_accuracyRadius v)
       (sessionCity s) (sessionState s) (geofence s)"

text \<open>
  The block \<^verbatim>\<open>if (isLocationRequired) { ... } else { ... }\<close>. Its result is the rejection
  sent from the \<^verbatim>\<open>catch\<close>, or the pair \<^verbatim>\<open>locationVerified\<close>,
  \<^verbatim>\<open>locationVerificationResult\<close>. Errors thrown inside the \<^verbatim>\<open>try\<close> (by the service
  or by the two assertions after the call) all reach the same \<^verbatim>\<open>catch\<close>, which sends
  \<^verbatim>\<open>error.message || '...'\<close>. The assertion before the \<^verbatim>\<open>try\<close> re-tests that the
  coordinates are numbers, which \<open>validated\<close> holds by type.
\<close>

definition locationGate :: "env \<Rightarrow> session \<Rightarrow> validated \<Rightarrow> bool
    \<Rightarrow> rejection + bool \<times> LocationVerificationResult option" where
  "locationGate e s v required =
     (if required
      then
        (case verifyLocation e (v_latitude v) (v_longitude v) (v_accuracyRadius v)
                (sessionCity s) (sessionState s) (geofence s) of
           Inl msg \<Rightarrow>
             Inl (Reject 403 (MAPMYINDIA_VERIFICATION_FAILED
                   (if msg = [] then ''Unable to verify location at this time. Attendance not marked.''
                    else msg)))
         | Inr None \<Rightarrow>
             Inl (Reject 403 (MAPMYINDIA_VERIFICATION_FAILED
                   ''FATAL: Location verification returned invalid result''))
         | Inr (Some r) \<Rightarrow>
             (if \<not> isValid r
              then Inl (Reject 403 (MAPMYINDIA_VERIFICATION_FAILED
                     ''FATAL: Location verification returned invalid result''))
              else if \<not> verificationDataPresent r
              then Inl (Reject 403 (MAPMYINDIA_VERIFICATION_FAILED
                     ''FATAL: Required verification data missing''))
              else Inr (True, Some r)))
      else Inr (True, None))"

definition gateEffects :: "session \<Rightarrow> validated \<Rightarrow> bool \<Rightarrow> effect list" where
  "gateEffects s v required = (if required then [verifyCall s v] else [])"

text \<open>Lines 487--513: the two assertions after the gate.\<close>

definition gateAssertions :: "bool \<Rightarrow> bool \<Rightarrow> LocationVerificationResult option
    \<Rightarrow> rejection option" where
  "gateAssertions required verified result =
     (if required \<and> \<not> verified then Some (Reject 403 LOCATION_VERIFICATION_FAILED)
      else if required \<and> result = None then Some (Reject 403 MISSING_VERIFICATION_RESULT)
      else None)"

subsection \<open>Device binding (lines 515--547)\<close>

text \<open>\<^verbatim>\<open>!s\<close> on an optional string: absent or empty.\<close>

definition falsy :: "jsstring option \<Rightarrow> bool" where
  "falsy s \<longleftrightarrow> s = None \<or> s = Some []"

text \<open>
  The result is the rejection, or the user document to save (\<open>Some\<close>, on first
  registration) or nothing to save.
\<close>

definition deviceBinding :: "user \<Rightarrow> validated \<Rightarrow> rejection + user option" where
  "deviceBinding u v =
     (if falsy (registeredDeviceId u)
      then Inr (Some (u\<lparr>registeredDeviceId := Some (v_deviceId v),
                        registeredUserAgent := Some (v_userAgent v)\<rparr>))
      else if registeredDeviceId u \<noteq> Some (v_deviceId v)
      then Inl (Reject 403 DEVICE_MISMATCH)
      else if \<not> falsy (registeredUserAgent u) \<and> registeredUserAgent u \<noteq> Some (v_userAgent v)
      then Inl (Reject 403 CLONING_DETECTED)
      else Inr None)"

subsection \<open>Commit (lines 549--660)\<close>

definition finalAssertions :: "bool \<Rightarrow> bool \<Rightarrow> LocationVerificationResult option
    \<Rightarrow> rejection option" where
  "finalAssertions required verified result =
     (if required
      then (if \<not> verified then Some (Reject 403 LOCATION_NOT_VERIFIED)
            else (case result of
                    None \<Rightarrow> Some (Reject 403 MISSING_VERIFICATION_RESULT)
                  | Some r \<Rightarrow>
                      (if \<not> isValid r then Some (Reject 403 INVALID_VERIFICATION_RESULT)
                       else if \<not> verificationDataPresent r
                       then Some (Reject 403 INCOMPLETE_VERIFICATION_DATA)
                       else None)))
      else None)"

definition attendanceData :: "env \<Rightarrow> request \<Rightarrow> validated \<Rightarrow> bool \<Rightarrow> bool \<Rightarrow> bool
    \<Rightarrow> int option \<Rightarrow> LocationVerificationResult option \<Rightarrow> attendance" where
  "attendanceData e req v required verified late lateBy result =
     (let base = \<lparr>a_userId = userId req, a_sessionId = sessionId req, checkInTime = nowUTC e,
                   locationVerified = verified, isLate = late, lateByMinutes = lateBy,
                   a_userLocation = Some (v_latitude v, v_longitude v),
                   a_deviceId = v_deviceId v, reverseGeocodeSnapshot = None,
                   a_confidenceScore = None, a_accuracyRadius = None\<rparr>
      in (case result of
            Some r \<Rightarrow>
              (if required
               then base\<lparr>reverseGeocodeSnapshot := reverseGeocode r,
                         a_confidenceScore := confidenceScore r,
                         a_accuracyRadius := accuracyRadius r\<rparr>
               else base)
          | None \<Rightarrow> base))"

text \<open>Lines 645--655: the roster entry found by \<^verbatim>\<open>findIndex\<close> (the first match) is updated.\<close>

fun markPresent :: "string \<Rightarrow> bool \<Rightarrow> assigned_user list \<Rightarrow> assigned_user list" where
  "markPresent uid late [] = []"
| "markPresent uid late (a # as) =
     (if au_userId a = uid
      then a\<lparr>attendanceStatus := ''Present'', au_isLate := (if late then True else au_isLate a)\<rparr> # as
      else a # markPresent uid late as)"

definition commitAttendance :: "env \<Rightarrow> db \<Rightarrow> request \<Rightarrow> validated \<Rightarrow> session \<Rightarrow> bool
    \<Rightarrow> int option \<Rightarrow> bool \<Rightarrow> bool \<Rightarrow> LocationVerificationResult option \<Rightarrow> effect list
    \<Rightarrow> outcome" where
  "commitAttendance e d req v s late lateBy required verified result effs =
     (case finalAssertions required verified result of
        Some r \<Rightarrow> reject r d effs
      | None \<Rightarrow>
          (let a = attendanceData e req v required verified late lateBy result
           in if required \<and> result \<noteq> None \<and>
                  (reverseGeocodeSnapshot a = None \<or> a_confidenceScore a = None \<or>
                   a_accuracyRadius a = None)
              then reject (Reject 500 INTERNAL_ERROR) d effs
              else
                (let d1 = d\<lparr>attendances := attendances d @ [a]\<rparr>
                 in if findAssignment s (userId req) \<noteq> None
                    then respond (Created a)
                           (d1\<lparr>sessions := (sessions d1)(sessionId req \<mapsto>
                              s\<lparr>assignedUsers := markPresent (userId req) late (assignedUsers s)\<rparr>)\<rparr>)
                           (effs @ [SaveAttendance, SaveSession])
                    else respond (Created a) d1 (effs @ [SaveAttendance]))))"

subsection \<open>The pipeline\<close>

text \<open>
  \<^verbatim>\<open>markAttendance\<close> is one long function; it is cut here at its numbered steps, each
  stage ending in a rejection or in the next stage. \<open>effs\<close> is the log of the effects so
  far. The database calls themselves are taken to succeed (a failing call would reach the
  outer \<^verbatim>\<open>catch\<close> and answer 500); the settings lookup, which has a \<^verbatim>\<open>catch\<close> of
  its own, is the exception and is modelled by \<open>settings_lookup\<close>.
\<close>

text \<open>Steps 10 and 11: device binding, then the commit.\<close>

definition admit_device :: "env \<Rightarrow> db \<Rightarrow> request \<Rightarrow> validated \<Rightarrow> user \<Rightarrow> session \<Rightarrow> bool
    \<Rightarrow> int option \<Rightarrow> bool \<Rightarrow> bool \<Rightarrow> LocationVerificationResult option \<Rightarrow> effect list
    \<Rightarrow> outcome" where
  "admit_device e d req v u s late lateBy required verified result effs =
     (case deviceBinding u v of
        Inl r \<Rightarrow> reject r d effs
      | Inr None \<Rightarrow> commitAttendance e d req v s late lateBy required verified result effs
      | Inr (Some u') \<Rightarrow>
          commitAttendance e (d\<lparr>users := (users d)(userId req \<mapsto> u')\<rparr>) req v s late lateBy
            required verified result (effs @ [SaveUser]))"

text \<open>Step 9: assignment, requiredness, the verification gate and its assertions.\<close>

definition admit_location :: "env \<Rightarrow> db \<Rightarrow> request \<Rightarrow> validated \<Rightarrow> user \<Rightarrow> session \<Rightarrow> bool
    \<Rightarrow> int option \<Rightarrow> effect list \<Rightarrow> outcome" where
  "admit_location e d req v u s late lateBy effs =
     (case findAssignment s (userId req) of
        None \<Rightarrow> reject (Reject 403 NOT_ASSIGNED) d effs
      | Some a \<Rightarrow>
          (let required = isLocationRequired s a;
               effs' = effs @ gateEffects s v required
           in (case locationGate e s v required of
                 Inl r \<Rightarrow> reject r d effs'
               | Inr (verified, result) \<Rightarrow>
                   (case gateAssertions required verified result of
                      Some r \<Rightarrow> reject r d effs'
                    | None \<Rightarrow>
                        admit_device e d req v u s late lateBy required verified result effs'))))"

text \<open>Steps 7 and 8: the scan window and the late marking.\<close>

definition admit_timing :: "env \<Rightarrow> db \<Rightarrow> request \<Rightarrow> validated \<Rightarrow> user \<Rightarrow> session \<Rightarrow> real
    \<Rightarrow> bool \<Rightarrow> effect list \<Rightarrow> outcome" where
  "admit_timing e d req v u s lateLimit strict effs =
     (case earlyCheck e s of
        Some r \<Rightarrow> reject r d effs
      | None \<Rightarrow>
          (case lateMarking lateLimit strict e s of
             Inl r \<Rightarrow> reject r d effs
           | Inr (late, lateBy) \<Rightarrow> admit_location e d req v u s late lateBy effs))"

text \<open>Steps 5 and 6: the schedule and the duplicate check.\<close>

definition admit_schedule :: "env \<Rightarrow> db \<Rightarrow> request \<Rightarrow> validated \<Rightarrow> user \<Rightarrow> session \<Rightarrow> real
    \<Rightarrow> bool \<Rightarrow> effect list \<Rightarrow> outcome" where
  "admit_schedule e d req v u s lateLimit strict effs =
     (if \<not> isSessionDateToday e s then reject (Reject 400 NOT_SCHEDULED_TODAY) d effs
      else (case existingAttendance e s (userId req) (sessionId req) (attendances d) of
              Some x \<Rightarrow> reject (Reject 400 ALREADY_MARKED) d (effs @ [FindAttendance])
            | None \<Rightarrow> admit_timing e d req v u s lateLimit strict (effs @ [FindAttendance])))"

text \<open>Steps 1 to 4: validation, role, session id, settings, user and session.\<close>

definition markAttendance :: "env \<Rightarrow> db \<Rightarrow> request \<Rightarrow> outcome" where
  "markAttendance e d req =
     (case validateRequest req of
        Inl r \<Rightarrow> reject r d []
      | Inr v \<Rightarrow>
          (if role req = ''PLATFORM_OWNER'' then reject (Reject 403 PLATFORM_OWNER_FORBIDDEN) d []
           else if \<not> isValidObjectId e (sessionId req) then reject (Reject 400 INVALID_SESSION_ID) d []
           else
             (case users d (userId req) of
                None \<Rightarrow> reject (Reject 404 USER_NOT_FOUND) d [FetchSettings, FindUserAndSession]
              | Some u \<Rightarrow>
                  (case sessions d (sessionId req) of
                     None \<Rightarrow>
                       reject (Reject 404 SESSION_NOT_FOUND) d [FetchSettings, FindUserAndSession]
                   | Some s \<Rightarrow>
                       admit_schedule e d req v u s (fst (fetchSettings (orgSettings d)))
                         (snd (fetchSettings (orgSettings d)))
                         [FetchSettings, FindUserAndSession]))))"

section \<open>forceMarkAttendance (lines 946--1078)\<close>

record force_request =
  f_validationErrors :: "string list"
  f_role :: string
  f_sessionId :: string
  f_userId :: string
  f_status :: string

text \<open>\<^verbatim>\<open>findOne\<close> followed by an update of the document found: the first match changes.\<close>

fun forceVerified :: "string \<Rightarrow> string \<Rightarrow> attendance list \<Rightarrow> attendance list" where
  "forceVerified uid sid [] = []"
| "forceVerified uid sid (a # as) =
     (if a_userId a = uid \<and> a_sessionId a = sid
      then a\<lparr>locationVerified := True, isLate := False, lateByMinutes := None\<rparr> # as
      else a # forceVerified uid sid as)"

fun deleteOne :: "string \<Rightarrow> string \<Rightarrow> attendance list \<Rightarrow> attendance list" where
  "deleteOne uid sid [] = []"
| "deleteOne uid sid (a # as) =
     (if a_userId a = uid \<and> a_sessionId a = sid then as else a # deleteOne uid sid as)"

fun setRoster :: "string \<Rightarrow> string \<Rightarrow> assigned_user list \<Rightarrow> assigned_user list" where
  "setRoster uid st [] = []"
| "setRoster uid st (a # as) =
     (if au_userId a = uid then a\<lparr>attendanceStatus := st, au_isLate := False\<rparr> # as
      else a # setRoster uid st as)"

definition forcedRecord :: "env \<Rightarrow> force_request \<Rightarrow> attendance" where
  "forcedRecord e req =
     \<lparr>a_userId = f_userId req, a_sessionId = f_sessionId req, checkInTime = nowUTC e,
      locationVerified = True, isLate = False, lateByMinutes = None, a_userLocation = None,
      a_deviceId = utf16 ''FORCED_BY_PLATFORM_OWNER'', reverseGeocodeSnapshot = None,
      a_confidenceScore = None, a_accuracyRadius = None\<rparr>"

definition forceRoster :: "db \<Rightarrow> force_request \<Rightarrow> session \<Rightarrow> db \<times> effect list" where
  "forceRoster d req s =
     (if findAssignment s (f_userId req) \<noteq> None
      then (d\<lparr>sessions := (sessions d)(f_sessionId req \<mapsto>
               s\<lparr>assignedUsers := setRoster (f_userId req) (f_status req) (assignedUsers s)\<rparr>)\<rparr>,
            [SaveSession])
      else (d, []))"

definition forceMarkAttendance :: "env \<Rightarrow> db \<Rightarrow> force_request \<Rightarrow> outcome" where
  "forceMarkAttendance e d req =
     (if f_validationErrors req \<noteq> []
      then reject (Reject 400 (VALIDATION_ERRORS (f_validationErrors req))) d []
      else if f_role req \<noteq> ''PLATFORM_OWNER'' then reject (Reject 403 NOT_PLATFORM_OWNER) d []
      else if \<not> isValidObjectId e (f_sessionId req) then reject (Reject 400 INVALID_SESSION_ID) d []
      else if \<not> isValidObjectId e (f_userId req) then reject (Reject 400 INVALID_USER_ID) d []
      else if f_status req \<noteq> ''Present'' \<and> f_status req \<noteq> ''Absent''
      then reject (Reject 400 INVALID_STATUS) d []
      else
        (case users d (f_userId req) of
           None \<Rightarrow> reject (Reject 404 USER_NOT_FOUND) d [FindUserAndSession]
         | Some u \<Rightarrow>
             (case sessions d (f_sessionId req) of
                None \<Rightarrow> reject (Reject 404 SESSION_NOT_FOUND) d [FindUserAndSession]
              | Some s \<Rightarrow>
                  (if f_status req = ''Present''
                   then
                     (let d1 =
                            (case find (\<lambda>a. a_userId a = f_userId req \<and> a_sessionId a = f_sessionId req)
                                    (attendances d) of
                               Some x \<Rightarrow>
                                 d\<lparr>attendances :=
                                     forceVerified (f_userId req) (f_sessionId req) (attendances d)\<rparr>
                             | None \<Rightarrow> d\<lparr>attendances := attendances d @ [forcedRecord e req]\<rparr>)
                      in respond (ForceMarked (f_status req)) (fst (forceRoster d1 req s))
                           ([FindUserAndSession, FindAttendance, SaveAttendance]
                            @ snd (forceRoster d1 req s) @ [AuditLogCreate]))
                   else
                     (let d1 = d\<lparr>attendances :=
                                  deleteOne (f_userId req) (f_sessionId req) (attendances d)\<rparr>
                      in respond (ForceMarked (f_status req)) (fst (forceRoster d1 req s))
                           ([FindUserAndSession, DeleteAttendance]
                            @ snd (forceRoster d1 req s) @ [AuditLogCreate]))))))"

section \<open>Vocabulary of the properties\<close>

text \<open>
  The conditions under which a request gets as far as a given step of \<^verbatim>\<open>markAttendance\<close>:
  each is the conjunction of the tests the controller has passed by then. The effects
  logged before the location step are always the same three.
\<close>

definition reachesSchedule :: "env \<Rightarrow> db \<Rightarrow> request \<Rightarrow> validated \<Rightarrow> user \<Rightarrow> session \<Rightarrow> bool" where
  "reachesSchedule e d req v u s \<longleftrightarrow>
     validateRequest req = Inr v \<and> role req \<noteq> ''PLATFORM_OWNER'' \<and>
     isValidObjectId e (sessionId req) \<and> users d (userId req) = Some u \<and>
     sessions d (sessionId req) = Some s"

definition reachesTiming :: "env \<Rightarrow> db \<Rightarrow> request \<Rightarrow> validated \<Rightarrow> user \<Rightarrow> session \<Rightarrow> bool" where
  "reachesTiming e d req v u s \<longleftrightarrow>
     reachesSchedule e d req v u s \<and> isSessionDateToday e s \<and>
     existingAttendance e s (userId req) (sessionId req) (attendances d) = None"

definition reachesLocation :: "env \<Rightarrow> db \<Rightarrow> request \<Rightarrow> validated \<Rightarrow> user \<Rightarrow> session \<Rightarrow> bool
    \<Rightarrow> int option \<Rightarrow> bool" where
  "reachesLocation e d req v u s late lateBy \<longleftrightarrow>
     reachesTiming e d req v u s \<and> earlyCheck e s = None \<and>
     lateMarking (fst (fetchSettings (orgSettings d))) (snd (fetchSettings (orgSettings d))) e s
       = Inr (late, lateBy)"

definition reachesDevice :: "env \<Rightarrow> db \<Rightarrow> request \<Rightarrow> validated \<Rightarrow> user \<Rightarrow> session \<Rightarrow> bool
    \<Rightarrow> int option \<Rightarrow> assigned_user \<Rightarrow> LocationVerificationResult option \<Rightarrow> bool" where
  "reachesDevice e d req v u s late lateBy a result \<longleftrightarrow>
     reachesLocation e d req v u s late lateBy \<and> findAssignment s (userId req) = Some a \<and>
     locationGate e s v (isLocationRequired s a) = Inr (True, result)"

definition effectsBeforeGate :: "effect list" where
  "effectsBeforeGate = [FetchSettings, FindUserAndSession, FindAttendance]"

text \<open>
  The date-only value of an instant in the server's local time: the number of its local
  day. The date range of a recurring session, on date-only values: today is not before the
  start date and, when there is an end date, not after it. Today's day name is
  \<^verbatim>\<open>dayNames[nowInIST.getDay()]\<close>.
\<close>

definition localDay :: "int \<Rightarrow> int \<Rightarrow> int" where
  "localDay tz t = (t + tz) div msPerDay"

definition inDateRange :: "env \<Rightarrow> session \<Rightarrow> bool" where
  "inDateRange e s \<longleftrightarrow>
     localDay (tzOffset e) (startDate s) \<le> localDay (tzOffset e) (nowInIST e) \<and>
     (case endDate s of
        None \<Rightarrow> True
      | Some d \<Rightarrow> localDay (tzOffset e) (nowInIST e) \<le> localDay (tzOffset e) d)"

definition todayDayName :: "env \<Rightarrow> string" where
  "todayDayName e = dayNames ! getDay (tzOffset e) (nowInIST e)"

text \<open>
  The locals of the late marking: \<^verbatim>\<open>timeDifferenceMs\<close>, \<^verbatim>\<open>timeDifferenceMinutes\<close>, and
  the limit and the mode read from the settings.
\<close>

definition timeDifferenceMs :: "env \<Rightarrow> session \<Rightarrow> int" where
  "timeDifferenceMs e s = nowInIST e - sessionStartDateTime e s"

definition timeDifferenceMinutes :: "env \<Rightarrow> session \<Rightarrow> real" where
  "timeDifferenceMinutes e s = real_of_int (timeDifferenceMs e s) / (1000 * 60)"

definition lateLimitOf :: "db \<Rightarrow> real" where
  "lateLimitOf d = fst (fetchSettings (orgSettings d))"

definition strictModeOf :: "db \<Rightarrow> bool" where
  "strictModeOf d = snd (fetchSettings (orgSettings d))"

text \<open>
  What an outcome may have done to the database: a 201 has appended exactly the record it
  returns to the attendance collection; a rejection has changed nothing. A logged effect
  is, or is not, a call of the verification service.
\<close>

definition persistsOnlyCreated :: "db \<Rightarrow> outcome \<Rightarrow> bool" where
  "persistsOnlyCreated d out \<longleftrightarrow>
     (case response out of
        Created a \<Rightarrow> attendances (db_after out) = attendances d @ [a]
      | Rejected r \<Rightarrow> db_after out = d
      | ForceMarked x \<Rightarrow> False)"

definition isVerifyLocation :: "effect \<Rightarrow> bool" where
  "isVerifyLocation x = (case x of VerifyLocation lat lng acc c st g \<Rightarrow> True | _ \<Rightarrow> False)"

text \<open>
  The record that \<^verbatim>\<open>findOne({ userId, sessionId })\<close> returns from the attendance
  collection: the first one of this user and session.
\<close>

definition attendanceOf :: "string \<Rightarrow> string \<Rightarrow> attendance list \<Rightarrow> attendance option" where
  "attendanceOf uid sid atts = find (\<lambda>a. a_userId a = uid \<and> a_sessionId a = sid) atts"

subsection \<open>A concrete scenario\<close>

text \<open>
  A server in UTC, a verification service that accepts every position, one registered user
  and one physical one-time session on day 0 (1 January 1970, a Thursday) at 11:00, and a
  well-formed request of that user from the registered device. The clock reading is a
  parameter; 16200000 is 10:00 in IST on day 0. \<open>ex_validated\<close> is what validation makes
  of the request, \<open>ex_result\<close> what the service returns for it, \<open>ex_verify_effect\<close> the
  logged call, and \<open>ex_record now\<close> the record of an on-time check-in at \<open>now\<close>.
\<close>

definition ex_geocode :: reverse_geocode where
  "ex_geocode = \<lparr>rg_city = ''New Delhi'', rg_state = ''Delhi'', rg_locality = ''Connaught Place'',
     rg_district = ''New Delhi'', rg_pincode = ''110001'', rg_fullAddress = ''Connaught Place''\<rparr>"

definition ex_verify_ok :: "jsnum \<Rightarrow> jsnum \<Rightarrow> jsnum \<Rightarrow> string option \<Rightarrow> string option
    \<Rightarrow> polygon option \<Rightarrow> string + LocationVerificationResult option" where
  "ex_verify_ok lat lng acc c st g =
     Inr (Some \<lparr>isValid = True, confidenceScore = Some (Fin 0.85), accuracyRadius = Some acc,
                reverseGeocode = Some ex_geocode, geofenceResult = None\<rparr>)"

definition ex_format :: "int \<Rightarrow> string" where
  "ex_format t = (if t = 39600000 then ''11:00 AM'' else if t = 32400000 then ''9:00 AM'' else ''?'')"

definition ex_env :: "int \<Rightarrow> env" where
  "ex_env now = \<lparr>nowUTC = now, tzOffset = 0, isValidObjectId = (\<lambda>i. i \<noteq> []),
     verifyLocation = ex_verify_ok, toLocaleTimeString = ex_format\<rparr>"

definition ex_user :: user where
  "ex_user = \<lparr>email = ''test@example.com'', registeredDeviceId = Some (utf16 ''device123''),
     registeredUserAgent = Some (utf16 ''Mozilla/5.0'')\<rparr>"

definition ex_assigned :: assigned_user where
  "ex_assigned = \<lparr>au_userId = ''user123'', mode = PHYSICAL_MODE, attendanceStatus = ''Pending'',
     au_isLate = False\<rparr>"

definition ex_session :: session where
  "ex_session = \<lparr>frequency = OneTime, startDate = 0, endDate = None, startHour = 11,
     startMinute = 0, weeklyDays = [], sessionType = PHYSICAL, assignedUsers = [ex_assigned],
     sessionCity = Some ''New Delhi'', sessionState = Some ''Delhi'', geofence = None,
     location = Some \<lparr>loc_type = COORDS, loc_geolocation = Some (28.6139, 77.2090),
                          loc_link = None\<rparr>,
     geolocation = None\<rparr>"

definition ex_db :: db where
  "ex_db = \<lparr>users = [''user123'' \<mapsto> ex_user], sessions = [''s1'' \<mapsto> ex_session],
     attendances = [],
     orgSettings = FoundSettings \<lparr>lateAttendanceLimit = 30, isStrictAttendance = Some False\<rparr>\<rparr>"

definition ex_request :: request where
  "ex_request = \<lparr>validationErrors = [], userId = ''user123'', role = ''User'', sessionId = ''s1'',
     userLocation = JObject [(''latitude'', JNumber (Fin 28.6139)),
                             (''longitude'', JNumber (Fin 77.2090))],
     deviceId = JString (utf16 ''device123''), userAgent = JString (utf16 ''Mozilla/5.0''),
     accuracy = JNumber (Fin 20)\<rparr>"

definition ex_validated :: validated where
  "ex_validated = \<lparr>v_deviceId = utf16 ''device123'', v_userAgent = utf16 ''Mozilla/5.0'',
     v_latitude = Fin 28.6139, v_longitude = Fin 77.2090, v_accuracyRadius = Fin 20\<rparr>"

definition ex_result :: LocationVerificationResult where
  "ex_result = \<lparr>isValid = True, confidenceScore = Some (Fin 0.85), accuracyRadius = Some (Fin 20),
     reverseGeocode = Some ex_geocode, geofenceResult = None\<rparr>"

definition ex_verify_effect :: effect where
  "ex_verify_effect =
     VerifyLocation (Fin 28.6139) (Fin 77.2090) (Fin 20) (Some ''New Delhi'') (Some ''Delhi'') None"

definition ex_record :: "int \<Rightarrow> attendance" where
  "ex_record now = \<lparr>a_userId = ''user123'', a_sessionId = ''s1'', checkInTime = now,
     locationVerified = True, isLate = False, lateByMinutes = None,
     a_userLocation = Some (Fin 28.6139, Fin 77.2090), a_deviceId = utf16 ''device123'',
     reverseGeocodeSnapshot = Some ex_geocode, a_confidenceScore = Some (Fin 0.85),
     a_accuracyRadius = Some (Fin 20)\<rparr>"

text \<open>
  Variants of the session: remote (with the record of a check-in there, which has no
  verification snapshot); with a link for a location descriptor and no coordinates; with
  no location descriptor; weekly on given days; daily, with given attendance records.
\<close>

definition ex_remote_db :: db where
  "ex_remote_db = ex_db\<lparr>sessions := [''s1'' \<mapsto> ex_session\<lparr>sessionType := REMOTE\<rparr>]\<rparr>"

definition ex_remote_record :: "int \<Rightarrow> attendance" where
  "ex_remote_record now = (ex_record now)\<lparr>reverseGeocodeSnapshot := None,
     a_confidenceScore := None, a_accuracyRadius := None\<rparr>"

definition ex_link_db :: db where
  "ex_link_db = ex_db\<lparr>sessions := [''s1'' \<mapsto> ex_session\<lparr>
      location := Some \<lparr>loc_type = LINK, loc_geolocation = None,
                        loc_link = Some ''https://maps.google.com/...''\<rparr>,
      geolocation := None\<rparr>]\<rparr>"

definition ex_nolocation_db :: db where
  "ex_nolocation_db = ex_db\<lparr>sessions := [''s1'' \<mapsto> ex_session\<lparr>location := None,
      geolocation := None\<rparr>]\<rparr>"

definition ex_weekly :: "string list \<Rightarrow> session" where
  "ex_weekly days = ex_session\<lparr>frequency := Weekly, weeklyDays := days\<rparr>"

definition ex_weekly_db :: "string list \<Rightarrow> db" where
  "ex_weekly_db days = ex_db\<lparr>sessions := [''s1'' \<mapsto> ex_weekly days]\<rparr>"

definition ex_daily_db :: "attendance list \<Rightarrow> db" where
  "ex_daily_db atts = ex_db\<lparr>sessions := [''s1'' \<mapsto> ex_session\<lparr>frequency := Daily\<rparr>],
     attendances := atts\<rparr>"

text \<open>
  Variants of the settings, of the registered user and of the presented device: strict
  mode on; any user document in place of the registered one; a user never registered; a
  legacy user without a recorded user agent; a request from a given device and user agent.
\<close>

definition ex_strict_db :: db where
  "ex_strict_db = ex_db\<lparr>orgSettings :=
     FoundSettings \<lparr>lateAttendanceLimit = 30, isStrictAttendance = Some True\<rparr>\<rparr>"

definition ex_db_user :: "user \<Rightarrow> db" where
  "ex_db_user u = ex_db\<lparr>users := [''user123'' \<mapsto> u]\<rparr>"

definition ex_new_user :: user where
  "ex_new_user = ex_user\<lparr>registeredDeviceId := None, registeredUserAgent := None\<rparr>"

definition ex_legacy_user :: user where
  "ex_legacy_user = ex_user\<lparr>registeredUserAgent := None\<rparr>"

definition ex_request_from :: "string \<Rightarrow> string \<Rightarrow> request" where
  "ex_request_from dev ua =
     ex_request\<lparr>deviceId := JString (utf16 dev), userAgent := JString (utf16 ua)\<rparr>"

text \<open>
  The scenario with the verification service down, and a force-mark request of the platform
  owner for the scenario's user and session.
\<close>

definition ex_verify_unavailable :: "jsnum \<Rightarrow> jsnum \<Rightarrow> jsnum \<Rightarrow> string option \<Rightarrow> string option
    \<Rightarrow> polygon option \<Rightarrow> string + LocationVerificationResult option" where
  "ex_verify_unavailable lat lng acc c st g =
     Inl ''Location verification service is temporarily unavailable. Attendance not marked.''"

definition ex_env_unavailable :: "int \<Rightarrow> env" where
  "ex_env_unavailable now = (ex_env now)\<lparr>verifyLocation := ex_verify_unavailable\<rparr>"

definition ex_force_request :: force_request where
  "ex_force_request = \<lparr>f_validationErrors = [], f_role = ''PLATFORM_OWNER'', f_sessionId = ''s1'',
     f_userId = ''user123'', f_status = ''Present''\<rparr>"

text \<open>
  A stored record of the scenario's user and session that is marked late and not location
  verified.
\<close>

definition ex_unverified_record :: attendance where
  "ex_unverified_record = (ex_remote_record 16200000)\<lparr>locationVerified := False, isLate := True,
     lateByMinutes := Some 12\<rparr>"

section \<open>Auxiliary lemmas\<close>

lemma locationGate_Inr:
  "locationGate e s v rq = Inr (vf, result) \<longleftrightarrow>
     vf \<and> (if rq then \<exists>r. result = Some r \<and> isValid r \<and> verificationDataPresent r \<and>
              verifyLocation e (v_latitude v) (v_longitude v) (v_accuracyRadius v)
                (sessionCity s) (sessionState s) (geofence s) = Inr (Some r)
            else result = None)"
  by (auto simp: locationGate_def split: sum.splits option.splits)

lemma commit_after_gate:
  assumes "locationGate e s v rq = Inr (True, result)" "findAssignment s (userId req) \<noteq> None"
  shows "commitAttendance e d req v s late lb rq True result effs =
     \<lparr>response = Created (attendanceData e req v rq True late lb result),
      db_after = d\<lparr>attendances := attendances d @ [attendanceData e req v rq True late lb result],
                   sessions := (sessions d)(sessionId req \<mapsto>
                      s\<lparr>assignedUsers := markPresent (userId req) late (assignedUsers s)\<rparr>)\<rparr>,
      effects = effs @ [SaveAttendance, SaveSession]\<rparr>"
  using assms
  by (auto simp: locationGate_Inr commitAttendance_def finalAssertions_def attendanceData_def
      verificationDataPresent_def Let_def respond_def split: if_splits)

lemma path_schedule:
  "reachesSchedule e d req v u s \<Longrightarrow>
   markAttendance e d req = admit_schedule e d req v u s (fst (fetchSettings (orgSettings d)))
      (snd (fetchSettings (orgSettings d))) [FetchSettings, FindUserAndSession]"
  by (simp add: reachesSchedule_def markAttendance_def)

lemma path_timing:
  "reachesTiming e d req v u s \<Longrightarrow>
   markAttendance e d req = admit_timing e d req v u s (fst (fetchSettings (orgSettings d)))
      (snd (fetchSettings (orgSettings d))) effectsBeforeGate"
  using path_schedule[of e d req v u s]
  by (simp add: reachesTiming_def admit_schedule_def effectsBeforeGate_def)

lemma path_location:
  "reachesLocation e d req v u s late lateBy \<Longrightarrow>
   markAttendance e d req = admit_location e d req v u s late lateBy effectsBeforeGate"
  using path_timing[of e d req v u s]
  by (simp add: reachesLocation_def admit_timing_def)

lemma gateAssertions_after_gate:
  "locationGate e s v rq = Inr (True, result) \<Longrightarrow> gateAssertions rq True result = None"
  by (auto simp: locationGate_Inr gateAssertions_def split: if_splits)

lemma path_device:
  assumes "reachesDevice e d req v u s late lateBy a result"
  shows "markAttendance e d req =
     admit_device e d req v u s late lateBy (isLocationRequired s a) True result
       (effectsBeforeGate @ gateEffects s v (isLocationRequired s a))"
proof -
  have l: "reachesLocation e d req v u s late lateBy"
    and a: "findAssignment s (userId req) = Some a"
    and g: "locationGate e s v (isLocationRequired s a) = Inr (True, result)"
    using assms by (simp_all add: reachesDevice_def)
  show ?thesis
    by (simp add: path_location[OF l] admit_location_def Let_def a g gateAssertions_after_gate[OF g])
qed

lemma created_commit:
  "response (commitAttendance e d req v s late lb rq vf res effs) = Created r \<Longrightarrow>
     r = attendanceData e req v rq vf late lb res \<and> finalAssertions rq vf res = None"
  by (auto simp: commitAttendance_def reject_def respond_def Let_def split: option.splits if_splits)

lemma created_device:
  "response (admit_device e d req v u s late lb rq vf res effs) = Created r \<Longrightarrow>
     r = attendanceData e req v rq vf late lb res \<and> (\<exists>x. deviceBinding u v = Inr x)"
  by (auto simp: admit_device_def reject_def respond_def split: sum.splits option.splits dest: created_commit)

lemma created_location:
  "response (admit_location e d req v u s late lb effs) = Created r \<Longrightarrow>
     \<exists>a res. findAssignment s (userId req) = Some a \<and>
       locationGate e s v (isLocationRequired s a) = Inr (True, res) \<and>
       r = attendanceData e req v (isLocationRequired s a) True late lb res \<and>
       (\<exists>x. deviceBinding u v = Inr x)"
proof -
  assume c: "response (admit_location e d req v u s late lb effs) = Created r"
  then obtain a where a: "findAssignment s (userId req) = Some a"
    by (auto simp: admit_location_def reject_def respond_def split: option.splits)
  from c a obtain vf res where g: "locationGate e s v (isLocationRequired s a) = Inr (vf, res)"
    by (auto simp: admit_location_def reject_def respond_def Let_def split: sum.splits)
  then have vf: "vf" by (simp add: locationGate_Inr)
  from c a g have "response (admit_device e d req v u s late lb (isLocationRequired s a) vf res
        (effs @ gateEffects s v (isLocationRequired s a))) = Created r"
    by (auto simp: admit_location_def reject_def respond_def Let_def split: option.splits)
  from created_device[OF this] a g vf show ?thesis by auto
qed

lemma created_timing:
  "response (admit_timing e d req v u s L st effs) = Created r \<Longrightarrow>
     \<exists>late lb. earlyCheck e s = None \<and> lateMarking L st e s = Inr (late, lb) \<and>
        response (admit_location e d req v u s late lb effs) = Created r"
  by (auto simp: admit_timing_def reject_def respond_def split: sum.splits option.splits)

lemma created_schedule:
  "response (admit_schedule e d req v u s L st effs) = Created r \<Longrightarrow>
     isSessionDateToday e s \<and> existingAttendance e s (userId req) (sessionId req) (attendances d) = None \<and>
        response (admit_timing e d req v u s L st (effs @ [FindAttendance])) = Created r"
  by (auto simp: admit_schedule_def reject_def respond_def split: sum.splits option.splits if_splits)

lemma created_markAttendance:
  assumes "response (markAttendance e d req) = Created r"
  shows "\<exists>v u s late lb a res. reachesDevice e d req v u s late lb a res \<and>
       (\<exists>x. deviceBinding u v = Inr x) \<and>
       r = attendanceData e req v (isLocationRequired s a) True late lb res"
proof -
  from assms obtain v u s where rs: "reachesSchedule e d req v u s"
    by (auto simp: markAttendance_def reachesSchedule_def reject_def respond_def split: sum.splits option.splits if_splits)
  note p = path_schedule[OF rs]
  from assms p created_schedule obtain
    t: "isSessionDateToday e s" "existingAttendance e s (userId req) (sessionId req) (attendances d) = None"
    and c1: "response (admit_timing e d req v u s (fst (fetchSettings (orgSettings d)))
      (snd (fetchSettings (orgSettings d))) ([FetchSettings, FindUserAndSession] @ [FindAttendance])) = Created r"
    by metis
  from created_timing[OF c1] obtain late lb where
    l: "earlyCheck e s = None" "lateMarking (fst (fetchSettings (orgSettings d))) (snd (fetchSettings (orgSettings d))) e s = Inr (late, lb)"
    and c2: "response (admit_location e d req v u s late lb ([FetchSettings, FindUserAndSession] @ [FindAttendance])) = Created r"
    by blast
  from created_location[OF c2] obtain a res where
    g: "findAssignment s (userId req) = Some a" "locationGate e s v (isLocationRequired s a) = Inr (True, res)"
       "r = attendanceData e req v (isLocationRequired s a) True late lb res" "\<exists>x. deviceBinding u v = Inr x"
    by blast
  have "reachesDevice e d req v u s late lb a res"
    using rs t l g by (simp add: reachesDevice_def reachesLocation_def reachesTiming_def)
  then show ?thesis using g by blast
qed

lemma accepted_markAttendance:
  assumes "reachesDevice e d req v u s late lb a res" "deviceBinding u v = Inr x"
  shows "response (markAttendance e d req) = Created (attendanceData e req v (isLocationRequired s a) True late lb res)"
proof -
  have g: "locationGate e s v (isLocationRequired s a) = Inr (True, res)" "findAssignment s (userId req) \<noteq> None"
    using assms(1) by (simp_all add: reachesDevice_def)
  show ?thesis
    using assms(2) by (cases x) (simp_all add: path_device[OF assms(1)] admit_device_def commit_after_gate[OF g])
qed


text \<open>Unfolding sets for evaluating the controller on the concrete scenario.\<close>

lemmas ex_defs = ex_env_def ex_db_def ex_request_def ex_user_def ex_session_def ex_assigned_def
  ex_verify_ok_def ex_validated_def ex_format_def

lemmas eval_defs = markAttendance_def admit_schedule_def admit_timing_def admit_location_def admit_device_def
  commitAttendance_def validateRequest_def checkUserLocation_def checkAccuracy_def validDeviceString_def
  trimIsEmpty_def isWhiteSpace_def utf16_def fetchSettings_def isSessionDateToday_def existingAttendance_def
  earlyCheck_def lateMarking_def sessionStartDateTime_def scanWindowStart_def EARLY_WINDOW_HOURS_def
  setHours_def startOfLocalDay_def todayIST_def nowInIST_def IST_OFFSET_MS_def msPerDay_def
  findAssignment_def isLocationRequired_def locationGate_def gateEffects_def verifyCall_def gateAssertions_def
  verificationDataPresent_def deviceBinding_def falsy_def finalAssertions_def attendanceData_def
  reject_def respond_def js_rem_def Let_def

text \<open>
  The response and the effects of each stage do not depend on the database handed on to
  it, except where the stage reads it.
\<close>

lemma commit_indep:
  "response (commitAttendance e d req v s late lb rq vf res effs) = response (commitAttendance e d' req v s late lb rq vf res effs)
   \<and> effects (commitAttendance e d req v s late lb rq vf res effs) = effects (commitAttendance e d' req v s late lb rq vf res effs)"
  by (auto simp: commitAttendance_def reject_def respond_def Let_def split: option.splits)

lemma device_indep:
  "response (admit_device e d req v u s late lb rq vf res effs) = response (admit_device e d' req v u s late lb rq vf res effs)
   \<and> effects (admit_device e d req v u s late lb rq vf res effs) = effects (admit_device e d' req v u s late lb rq vf res effs)"
  unfolding admit_device_def
  by (auto simp: reject_def respond_def split: sum.splits option.splits intro: commit_indep[THEN conjunct1] commit_indep[THEN conjunct2])

lemma location_indep:
  "response (admit_location e d req v u s late lb effs) = response (admit_location e d' req v u s late lb effs)
   \<and> effects (admit_location e d req v u s late lb effs) = effects (admit_location e d' req v u s late lb effs)"
  unfolding admit_location_def
  by (auto simp: reject_def respond_def Let_def split: sum.splits option.splits intro: device_indep[THEN conjunct1] device_indep[THEN conjunct2])

lemma timing_indep:
  "response (admit_timing e d req v u s L st effs) = response (admit_timing e d' req v u s L st effs)
   \<and> effects (admit_timing e d req v u s L st effs) = effects (admit_timing e d' req v u s L st effs)"
  unfolding admit_timing_def
  by (auto simp: reject_def respond_def Let_def split: sum.splits option.splits intro: location_indep[THEN conjunct1] location_indep[THEN conjunct2])

lemma schedule_indep:
  assumes "attendances d = attendances d'"
  shows "response (admit_schedule e d req v u s L st effs) = response (admit_schedule e d' req v u s L st effs)
   \<and> effects (admit_schedule e d req v u s L st effs) = effects (admit_schedule e d' req v u s L st effs)"
  unfolding admit_schedule_def using assms
  by (auto simp: reject_def respond_def Let_def split: sum.splits option.splits intro: timing_indep[THEN conjunct1] timing_indep[THEN conjunct2])

lemma markAttendance_indep:
  assumes "attendances d = attendances d'" "users d = users d'" "sessions d = sessions d'"
    "fetchSettings (orgSettings d) = fetchSettings (orgSettings d')"
  shows "response (markAttendance e d req) = response (markAttendance e d' req)
   \<and> effects (markAttendance e d req) = effects (markAttendance e d' req)"
  unfolding markAttendance_def using assms
  by (auto simp: reject_def respond_def split: sum.splits option.splits intro: schedule_indep[THEN conjunct1] schedule_indep[THEN conjunct2])

text \<open>The two payload checks, characterised.\<close>

lemma checkUserLocation_Inr:
  "checkUserLocation l = Inr (lat, lng) \<longleftrightarrow>
     isObject l \<and> asNumber (getProp l ''latitude'') = Some lat \<and>
     asNumber (getProp l ''longitude'') = Some lng \<and> \<not> (num_is_zero lat \<and> num_is_zero lng)"
  by (auto simp: checkUserLocation_def split: option.splits)

lemma checkUserLocation_Inl:
  "checkUserLocation l = Inl r \<Longrightarrow>
     r = Reject 400 MISSING_LOCATION \<or> r = Reject 400 INVALID_LOCATION_COORDS \<or>
     r = Reject 400 INVALID_LOCATION_ZERO"
  by (auto simp: checkUserLocation_def split: option.splits if_splits)

lemma checkAccuracy_Inr:
  "checkAccuracy a = Inr acc \<longleftrightarrow>
     asNumber a = Some acc \<and> acc \<noteq> NaN \<and> \<not> num_le acc 0 \<and> \<not> num_gt acc 1000"
  by (auto simp: checkAccuracy_def split: option.splits)

lemma checkAccuracy_Inl:
  "checkAccuracy a = Inl r \<Longrightarrow>
     r = Reject 400 MISSING_ACCURACY \<or> r = Reject 400 INVALID_ACCURACY"
  by (auto simp: checkAccuracy_def split: option.splits if_splits)

lemma validateRequest_Inl:
  assumes "(\<forall>p. checkUserLocation (userLocation req) \<noteq> Inr p) \<or>
           (\<forall>acc. checkAccuracy (accuracy req) \<noteq> Inr acc)"
  shows "\<exists>r. validateRequest req = Inl (Reject 400 r) \<and>
     r \<in> {VALIDATION_ERRORS (validationErrors req), MISSING_DEVICE_ID, MISSING_USER_AGENT,
          MISSING_LOCATION, INVALID_LOCATION_COORDS, INVALID_LOCATION_ZERO,
          MISSING_ACCURACY, INVALID_ACCURACY}"
proof (cases "validationErrors req = []")
  case False
  then show ?thesis by (simp add: validateRequest_def)
next
  case ve: True
  show ?thesis
  proof (cases "validDeviceString (deviceId req)")
    case None
    then show ?thesis using ve by (simp add: validateRequest_def)
  next
    case dev: (Some dev)
    show ?thesis
    proof (cases "validDeviceString (userAgent req)")
      case None
      then show ?thesis using ve dev by (simp add: validateRequest_def)
    next
      case ua: (Some ua)
      show ?thesis
      proof (cases "checkUserLocation (userLocation req)")
        case (Inl r)
        then show ?thesis using ve dev ua checkUserLocation_Inl[OF Inl]
          by (auto simp: validateRequest_def)
      next
        case (Inr p)
        with assms have "\<forall>acc. checkAccuracy (accuracy req) \<noteq> Inr acc" by auto
        then obtain r where r: "checkAccuracy (accuracy req) = Inl r"
          by (cases "checkAccuracy (accuracy req)") auto
        show ?thesis using ve dev ua Inr r checkAccuracy_Inl[OF r]
          by (cases p) (auto simp: validateRequest_def)
      qed
    qed
  qed
qed

text \<open>Local days: the date arithmetic of the schedule on day numbers.\<close>

lemma day_le_end:
  "(86400000::int) * a - tz \<le> 86400000 * b - tz + 23 * 3600000 + 59 * 60000 + 59 * 1000 + 999
     \<longleftrightarrow> a \<le> b"
  by linarith

lemma startOfLocalDay_localDay: "startOfLocalDay tz t = msPerDay * localDay tz t - tz"
proof -
  have "t + tz = msPerDay * ((t + tz) div msPerDay) + (t + tz) mod msPerDay" by simp
  then show ?thesis unfolding startOfLocalDay_def localDay_def by linarith
qed

lemma setHours_localDay:
  "setHours tz t h m sec ms =
     msPerDay * localDay tz t - tz + h * 3600000 + m * 60000 + sec * 1000 + ms"
  by (simp add: setHours_def startOfLocalDay_localDay)

lemma todayIST_localDay: "todayIST e = msPerDay * localDay (tzOffset e) (nowInIST e) - tzOffset e"
  by (simp add: todayIST_def startOfLocalDay_localDay)

lemma getDay_less: "getDay tz t < length dayNames"
  by (simp add: getDay_def dayNames_def)

lemma isSessionDateToday_OneTime:
  "frequency s = OneTime \<Longrightarrow>
     isSessionDateToday e s \<longleftrightarrow>
       localDay (tzOffset e) (startDate s) = localDay (tzOffset e) (nowInIST e)"
  by (simp add: isSessionDateToday_def setHours_localDay todayIST_localDay msPerDay_def)

lemma isWithinDateRange:
  "(todayIST e \<ge> setHours (tzOffset e) (startDate s) 0 0 0 0 \<and>
    (case map_option (\<lambda>d. setHours (tzOffset e) d 23 59 59 999) (endDate s) of
       None \<Rightarrow> True | Some d \<Rightarrow> todayIST e \<le> d)) \<longleftrightarrow> inDateRange e s"
proof (cases "endDate s")
  case None
  then show ?thesis
    by (simp add: inDateRange_def setHours_localDay todayIST_localDay msPerDay_def)
next
  case (Some d)
  have "todayIST e \<le> setHours (tzOffset e) d 23 59 59 999 \<longleftrightarrow>
        localDay (tzOffset e) (nowInIST e) \<le> localDay (tzOffset e) d"
    unfolding setHours_localDay todayIST_localDay msPerDay_def by (rule day_le_end)
  moreover have "todayIST e \<ge> setHours (tzOffset e) (startDate s) 0 0 0 0 \<longleftrightarrow>
        localDay (tzOffset e) (startDate s) \<le> localDay (tzOffset e) (nowInIST e)"
    by (simp add: setHours_localDay todayIST_localDay msPerDay_def)
  ultimately show ?thesis using Some by (simp add: inDateRange_def)
qed

lemma isSessionDateToday_recurring:
  "frequency s \<noteq> OneTime \<Longrightarrow>
     isSessionDateToday e s \<longleftrightarrow>
       inDateRange e s \<and>
       (frequency s = Weekly \<and> weeklyDays s \<noteq> [] \<longrightarrow> todayDayName e \<in> set (weeklyDays s))"
  unfolding isSessionDateToday_def Let_def isWithinDateRange todayDayName_def
  by auto


lemma ex_reachesSchedule:
  "reachesSchedule (ex_env now) (ex_weekly_db days) ex_request ex_validated ex_user (ex_weekly days)"
  by (simp add: reachesSchedule_def ex_defs ex_weekly_db_def validateRequest_def checkUserLocation_def
      checkAccuracy_def validDeviceString_def trimIsEmpty_def isWhiteSpace_def utf16_def)

text \<open>The duplicate lookup and today's window.\<close>

lemma div_window:
  fixes D :: int assumes "0 < D"
  shows "(D * q \<le> x \<and> x \<le> D * q + (D - 1)) \<longleftrightarrow> x div D = q"
proof
  assume h: "D * q \<le> x \<and> x \<le> D * q + (D - 1)"
  have "x = D * q + (x - D * q)" by simp
  moreover have "0 \<le> x - D * q" "x - D * q < D" using h by auto
  ultimately show "x div D = q" by (metis int_div_pos_eq)
next
  assume "x div D = q"
  then have "x = D * q + x mod D" by auto
  moreover have "0 \<le> x mod D" "x mod D < D" using assms by auto
  ultimately show "D * q \<le> x \<and> x \<le> D * q + (D - 1)" by linarith
qed

lemma localDay_todayIST: "localDay (tzOffset e) (todayIST e) = localDay (tzOffset e) (nowInIST e)"
proof -
  have "localDay tz (msPerDay * q - tz) = q" for q tz
    by (simp add: localDay_def msPerDay_def)
  then show ?thesis by (simp add: todayIST_localDay)
qed

lemma todayStartUTC_eq: "todayStartUTC e = todayIST e - IST_OFFSET_MS"
  unfolding todayStartUTC_def setHours_localDay localDay_todayIST
  by (simp add: todayIST_localDay)

lemma todayEndUTC_eq: "todayEndUTC e = todayStartUTC e + (msPerDay - 1)"
  by (simp add: todayEndUTC_def todayStartUTC_def setHours_def msPerDay_def)

lemma today_window:
  "todayStartUTC e \<le> t \<and> t \<le> todayEndUTC e \<longleftrightarrow>
     localDay (tzOffset e) (t + IST_OFFSET_MS) = localDay (tzOffset e) (nowInIST e)"
proof -
  let ?q = "localDay (tzOffset e) (nowInIST e)"
  have "todayStartUTC e \<le> t \<and> t \<le> todayEndUTC e \<longleftrightarrow>
        msPerDay * ?q \<le> t + IST_OFFSET_MS + tzOffset e \<and>
        t + IST_OFFSET_MS + tzOffset e \<le> msPerDay * ?q + (msPerDay - 1)"
    unfolding todayEndUTC_eq todayStartUTC_eq todayIST_localDay by linarith
  also have "\<dots> \<longleftrightarrow> (t + IST_OFFSET_MS + tzOffset e) div msPerDay = ?q"
    by (rule div_window) (simp add: msPerDay_def)
  finally show ?thesis by (simp add: localDay_def)
qed

lemma existingAttendance_iff:
  "existingAttendance e s uid sid atts \<noteq> None \<longleftrightarrow>
     (if frequency s = OneTime
      then \<exists>a\<in>set atts. a_userId a = uid \<and> a_sessionId a = sid
      else \<exists>a\<in>set atts. a_userId a = uid \<and> a_sessionId a = sid \<and>
             todayStartUTC e \<le> checkInTime a \<and> checkInTime a \<le> todayEndUTC e)"
  by (simp add: existingAttendance_def find_None_iff del: not_None_eq) blast

lemma markAttendance_duplicate:
  assumes "sessions d (sessionId req) = Some s"
    and "existingAttendance e s (userId req) (sessionId req) (attendances d) \<noteq> None"
  shows "(\<exists>r. response (markAttendance e d req) = Rejected r) \<and>
         \<not> list_ex isVerifyLocation (effects (markAttendance e d req)) \<and>
         db_after (markAttendance e d req) = d"
  using assms
  by (auto simp: markAttendance_def admit_schedule_def reject_def respond_def isVerifyLocation_def
      split: sum.splits option.splits)

text \<open>
  Where each rejection can come from. After the gate has passed, the commit always
  succeeds: the defensive assertions after the gate and before the save never fire.
\<close>

lemma device_cases:
  assumes "locationGate e s v rq = Inr (True, res)" "findAssignment s (userId req) \<noteq> None"
  shows "response (admit_device e d req v u s late lb rq True res effs) =
           Created (attendanceData e req v rq True late lb res) \<or>
         response (admit_device e d req v u s late lb rq True res effs) =
           Rejected (Reject 403 DEVICE_MISMATCH) \<or>
         response (admit_device e d req v u s late lb rq True res effs) =
           Rejected (Reject 403 CLONING_DETECTED)"
proof (cases "deviceBinding u v")
  case (Inl r)
  then have "r = Reject 403 DEVICE_MISMATCH \<or> r = Reject 403 CLONING_DETECTED"
    by (auto simp: deviceBinding_def split: if_splits)
  then show ?thesis using Inl by (auto simp: admit_device_def reject_def respond_def)
next
  case (Inr x)
  then show ?thesis
    by (cases x) (simp_all add: admit_device_def commit_after_gate[OF assms])
qed

lemma locationGate_Inl:
  "locationGate e s v rq = Inl r \<Longrightarrow> \<exists>msg. r = Reject 403 (MAPMYINDIA_VERIFICATION_FAILED msg)"
  by (auto simp: locationGate_def split: if_splits sum.splits option.splits)

lemma location_cases:
  "(\<exists>a. response (admit_location e d req v u s late lb effs) = Created a) \<or>
   response (admit_location e d req v u s late lb effs) = Rejected (Reject 403 NOT_ASSIGNED) \<or>
   (\<exists>msg. response (admit_location e d req v u s late lb effs) =
      Rejected (Reject 403 (MAPMYINDIA_VERIFICATION_FAILED msg))) \<or>
   response (admit_location e d req v u s late lb effs) = Rejected (Reject 403 DEVICE_MISMATCH) \<or>
   response (admit_location e d req v u s late lb effs) = Rejected (Reject 403 CLONING_DETECTED)"
proof (cases "findAssignment s (userId req)")
  case None
  then show ?thesis by (simp add: admit_location_def reject_def respond_def)
next
  case (Some a)
  show ?thesis
  proof (cases "locationGate e s v (isLocationRequired s a)")
    case (Inl r)
    with locationGate_Inl[OF Inl] Some show ?thesis
      by (auto simp: admit_location_def Let_def reject_def respond_def)
  next
    case (Inr p)
    obtain vf res where p: "p = (vf, res)" by (cases p)
    with Inr have vf: "vf" by (simp add: locationGate_Inr)
    have g: "locationGate e s v (isLocationRequired s a) = Inr (True, res)"
      using Inr p vf by simp
    have "admit_location e d req v u s late lb effs =
        admit_device e d req v u s late lb (isLocationRequired s a) True res
          (effs @ gateEffects s v (isLocationRequired s a))"
      by (simp add: admit_location_def Let_def Some g gateAssertions_after_gate[OF g])
    moreover have "findAssignment s (userId req) \<noteq> None" using Some by simp
    ultimately show ?thesis using device_cases[OF g, of req d u late lb] by metis
  qed
qed

lemma earlyCheck_Some:
  "earlyCheck e s = Some r \<longleftrightarrow>
     nowInIST e < scanWindowStart e s \<and>
     r = Reject 400 (TOO_EARLY (toLocaleTimeString e (sessionStartDateTime e s))
           (toLocaleTimeString e (scanWindowStart e s))
           ((scanWindowStart e s - nowInIST e) div 3600000)
           ((scanWindowStart e s - nowInIST e) mod 3600000 div 60000))"
  by (auto simp: earlyCheck_def Let_def js_rem_def)

lemma earlyCheck_None: "earlyCheck e s = None \<longleftrightarrow> scanWindowStart e s \<le> nowInIST e"
  by (auto simp: earlyCheck_def Let_def)

lemma lateMarking_Inl:
  "lateMarking L st e s = Inl r \<Longrightarrow> \<exists>m sec. r = Reject 400 (WINDOW_CLOSED_STRICT m sec)"
  by (auto simp: lateMarking_def Let_def split: if_splits)

lemma timing_not_too_early:
  assumes "earlyCheck e s = None"
  shows "response (admit_timing e d req v u s L st effs) \<noteq> Rejected (Reject c (TOO_EARLY a b h m))"
proof (cases "lateMarking L st e s")
  case (Inl r)
  with lateMarking_Inl[OF Inl] assms show ?thesis
    by (auto simp: admit_timing_def reject_def respond_def)
next
  case (Inr p)
  obtain late lb where "p = (late, lb)" by (cases p)
  with Inr assms have "admit_timing e d req v u s L st effs = admit_location e d req v u s late lb effs"
    by (simp add: admit_timing_def)
  then show ?thesis using location_cases[of e d req v u s late lb effs] by auto
qed

lemma markAttendance_not_too_early:
  assumes "sessions d (sessionId req) = Some s" "scanWindowStart e s \<le> nowInIST e"
  shows "response (markAttendance e d req) \<noteq> Rejected (Reject c (TOO_EARLY a b h m))"
proof -
  have ec: "earlyCheck e s = None" using assms(2) by (simp add: earlyCheck_None)
  have sch: "response (admit_schedule e d req v u s L st effs) \<noteq> Rejected (Reject c (TOO_EARLY a b h m))"
    for v u L st effs
    using timing_not_too_early[OF ec]
    by (auto simp: admit_schedule_def reject_def respond_def split: option.splits)
  show ?thesis
  proof (cases "validateRequest req")
    case (Inl r)
    then have "\<exists>x. validateRequest req = Inl (Reject 400 x) \<and> (\<forall>a b h m. x \<noteq> TOO_EARLY a b h m)"
      by (auto simp: validateRequest_def split: if_splits option.splits sum.splits
          dest!: checkUserLocation_Inl checkAccuracy_Inl)
    then show ?thesis by (auto simp: markAttendance_def reject_def respond_def)
  next
    case (Inr v)
    then show ?thesis using assms(1) sch
      by (auto simp: markAttendance_def reject_def respond_def split: option.splits)
  qed
qed

lemma remaining_hm:
  fixes x :: int
  shows "0 \<le> x mod 3600000 div 60000 \<and> x mod 3600000 div 60000 < 60 \<and>
         (x div 3600000) * 60 + x mod 3600000 div 60000 = x div 60000"
proof -
  let ?y = "x mod 3600000"
  have a: "0 \<le> ?y" "?y < 3600000" by simp_all
  have y: "?y = 60000 * (?y div 60000) + ?y mod 60000" by simp
  have m: "0 \<le> ?y mod 60000" "?y mod 60000 < 60000" by simp_all
  have b: "0 \<le> ?y div 60000" "?y div 60000 < 60" using a y m by linarith+
  have "x = 3600000 * (x div 3600000) + ?y" by simp
  then have "x div 60000 = (60000 * (60 * (x div 3600000)) + ?y) div 60000"
    by simp
  also have "\<dots> = 60 * (x div 3600000) + ?y div 60000"
    by (rule div_mult_self4) simp
  finally show ?thesis using b by simp
qed


text \<open>The scenario reaches the timing step on day 0.\<close>

lemma ex_validateRequest: "validateRequest ex_request = Inr ex_validated"
  by (simp add: ex_request_def ex_validated_def validateRequest_def checkUserLocation_def
      checkAccuracy_def validDeviceString_def trimIsEmpty_def isWhiteSpace_def utf16_def)

lemma ex_request_fields:
  "userId ex_request = ''user123''" "sessionId ex_request = ''s1''" "role ex_request = ''User''"
  by (simp_all add: ex_request_def)

lemmas ex_time_defs = ex_env_def ex_db_def ex_user_def ex_session_def ex_assigned_def ex_format_def
  ex_request_fields sessionStartDateTime_def scanWindowStart_def EARLY_WINDOW_HOURS_def
  setHours_def startOfLocalDay_def todayIST_def nowInIST_def IST_OFFSET_MS_def msPerDay_def

lemma ex_reachesTiming:
  "- 19800000 \<le> now \<Longrightarrow> now < 66600000 \<Longrightarrow>
     reachesTiming (ex_env now) ex_db ex_request ex_validated ex_user ex_session"
  by (simp add: reachesTiming_def reachesSchedule_def ex_validateRequest isSessionDateToday_def
      existingAttendance_def ex_time_defs)

text \<open>The late marking by cases, and the fields of the record built at the commit.\<close>

lemma lateMarking_cases:
  "lateMarking L st e s =
     (if 0 < timeDifferenceMinutes e s \<and> timeDifferenceMinutes e s \<le> L
      then Inr (True, Some \<lfloor>timeDifferenceMinutes e s\<rfloor>)
      else if L < timeDifferenceMinutes e s
      then (if st
            then Inl (Reject 400 (WINDOW_CLOSED_STRICT \<lfloor>timeDifferenceMinutes e s\<rfloor>
                        (js_rem (timeDifferenceMs e s) 60000 div 1000)))
            else Inr (True, Some \<lfloor>timeDifferenceMinutes e s\<rfloor>))
      else Inr (False, None))"
  by (simp add: lateMarking_def timeDifferenceMinutes_def timeDifferenceMs_def Let_def)

lemma floor_minutes: "\<lfloor>timeDifferenceMinutes e s\<rfloor> = timeDifferenceMs e s div 60000"
proof -
  have "\<lfloor>real_of_int (timeDifferenceMs e s) / real_of_int 60000\<rfloor> = timeDifferenceMs e s div 60000"
    by (rule floor_divide_of_int_eq)
  then show ?thesis by (simp add: timeDifferenceMinutes_def)
qed

lemma minutes_pos: "0 < timeDifferenceMinutes e s \<longleftrightarrow> 0 < timeDifferenceMs e s"
  by (simp add: timeDifferenceMinutes_def)

lemma minutes_le_0: "timeDifferenceMinutes e s \<le> 0 \<longleftrightarrow> timeDifferenceMs e s \<le> 0"
  by (simp add: timeDifferenceMinutes_def divide_le_0_iff)

lemma path_after_timing:
  assumes "reachesTiming e d req v u s" "earlyCheck e s = None"
    "lateMarking (lateLimitOf d) (strictModeOf d) e s = x"
  shows "markAttendance e d req =
     (case x of Inl r \<Rightarrow> reject r d effectsBeforeGate
      | Inr (late, lb) \<Rightarrow> admit_location e d req v u s late lb effectsBeforeGate)"
  using assms path_timing[of e d req v u s]
  by (simp add: admit_timing_def lateLimitOf_def strictModeOf_def)

lemma attendanceData_fields:
  "isLate (attendanceData e req v rq vf late lb res) = late"
  "lateByMinutes (attendanceData e req v rq vf late lb res) = lb"
  "locationVerified (attendanceData e req v rq vf late lb res) = vf"
  "a_userId (attendanceData e req v rq vf late lb res) = userId req"
  "a_sessionId (attendanceData e req v rq vf late lb res) = sessionId req"
  "checkInTime (attendanceData e req v rq vf late lb res) = nowUTC e"
  "a_deviceId (attendanceData e req v rq vf late lb res) = v_deviceId v"
  "a_userLocation (attendanceData e req v rq vf late lb res) = Some (v_latitude v, v_longitude v)"
  by (simp_all add: attendanceData_def Let_def split: option.splits)

lemma created_late_fields:
  "response (admit_location e d req v u s late lb effs) = Created a \<Longrightarrow>
     isLate a = late \<and> lateByMinutes a = lb"
  using created_location[of e d req v u s late lb effs a]
  by (auto simp: attendanceData_fields)

text \<open>The scenario from the window check on.\<close>

lemma ex_reachesTiming_strict:
  "- 19800000 \<le> now \<Longrightarrow> now < 66600000 \<Longrightarrow>
     reachesTiming (ex_env now) ex_strict_db ex_request ex_validated ex_user ex_session"
  using ex_reachesTiming[of now]
  by (simp add: reachesTiming_def reachesSchedule_def ex_strict_db_def)

lemma ex_earlyCheck: "12600000 \<le> now \<Longrightarrow> earlyCheck (ex_env now) ex_session = None"
  by (simp add: earlyCheck_None ex_time_defs)

lemma ex_timeDifferenceMs: "timeDifferenceMs (ex_env now) ex_session = now - 19800000"
  by (simp add: timeDifferenceMs_def ex_time_defs)

lemma ex_limits:
  "lateLimitOf ex_db = 30" "strictModeOf ex_db = False"
  "lateLimitOf ex_strict_db = 30" "strictModeOf ex_strict_db = True"
  by (simp_all add: lateLimitOf_def strictModeOf_def ex_db_def ex_strict_db_def fetchSettings_def)

lemma ex_admit_location:
  "response (admit_location (ex_env now) d ex_request ex_validated ex_user ex_session late lb effs)
     = Created ((ex_record now)\<lparr>isLate := late, lateByMinutes := lb\<rparr>)"
  by (simp add: admit_location_def admit_device_def commitAttendance_def findAssignment_def
      isLocationRequired_def locationGate_def gateAssertions_def verificationDataPresent_def
      deviceBinding_def falsy_def finalAssertions_def attendanceData_def respond_def Let_def
      ex_env_def ex_verify_ok_def ex_session_def ex_assigned_def ex_user_def ex_validated_def
      ex_request_fields ex_record_def)

text \<open>What \<^verbatim>\<open>markAttendance\<close> writes, and the outcome from the device step on.\<close>

lemma persists_reject: "persistsOnlyCreated d (reject r d effs)"
  by (simp add: persistsOnlyCreated_def reject_def respond_def)

lemma location_db: "persistsOnlyCreated d (admit_location e d req v u s late lb effs)"
proof (cases "findAssignment s (userId req)")
  case None
  then show ?thesis by (simp add: admit_location_def persists_reject)
next
  case (Some a)
  show ?thesis
  proof (cases "locationGate e s v (isLocationRequired s a)")
    case (Inl r)
    with Some show ?thesis
      by (simp add: admit_location_def Let_def persists_reject)
  next
    case (Inr p)
    obtain vf res where p: "p = (vf, res)" by (cases p)
    with Inr have vf: "vf" by (simp add: locationGate_Inr)
    have g: "locationGate e s v (isLocationRequired s a) = Inr (True, res)"
      using Inr p vf by simp
    have na: "findAssignment s (userId req) \<noteq> None" using Some by simp
    have eq: "admit_location e d req v u s late lb effs =
        admit_device e d req v u s late lb (isLocationRequired s a) True res
          (effs @ gateEffects s v (isLocationRequired s a))"
      by (simp add: admit_location_def Let_def Some g gateAssertions_after_gate[OF g])
    show ?thesis
    proof (cases "deviceBinding u v")
      case (Inl r)
      then show ?thesis by (simp add: eq admit_device_def persists_reject)
    next
      case (Inr x)
      then show ?thesis
        by (cases x)
           (simp_all add: eq admit_device_def commit_after_gate[OF g na] persistsOnlyCreated_def)
    qed
  qed
qed

lemma timing_db: "persistsOnlyCreated d (admit_timing e d req v u s L st effs)"
  by (simp add: admit_timing_def persists_reject location_db split: option.splits sum.splits)

lemma schedule_db: "persistsOnlyCreated d (admit_schedule e d req v u s L st effs)"
  by (simp add: admit_schedule_def persists_reject timing_db split: option.splits)

lemma markAttendance_db: "persistsOnlyCreated d (markAttendance e d req)"
  by (simp add: markAttendance_def persists_reject schedule_db split: option.splits sum.splits)


lemma validDeviceString_Some: "validDeviceString x = Some t \<Longrightarrow> x = JString t \<and> t \<noteq> []"
  by (cases x) (auto simp: validDeviceString_def trimIsEmpty_def split: if_splits)

lemma validateRequest_Inr:
  "validateRequest req = Inr v \<Longrightarrow>
     validationErrors req = [] \<and>
     validDeviceString (deviceId req) = Some (v_deviceId v) \<and>
     validDeviceString (userAgent req) = Some (v_userAgent v) \<and>
     checkUserLocation (userLocation req) = Inr (v_latitude v, v_longitude v) \<and>
     checkAccuracy (accuracy req) = Inr (v_accuracyRadius v)"
  by (auto simp: validateRequest_def split: if_splits option.splits sum.splits)

lemma deviceBinding_Inr:
  "deviceBinding u v = Inr x \<longleftrightarrow>
     (if falsy (registeredDeviceId u)
      then x = Some (u\<lparr>registeredDeviceId := Some (v_deviceId v),
                       registeredUserAgent := Some (v_userAgent v)\<rparr>)
      else registeredDeviceId u = Some (v_deviceId v) \<and>
           (falsy (registeredUserAgent u) \<or> registeredUserAgent u = Some (v_userAgent v)) \<and>
           x = None)"
  by (auto simp: deviceBinding_def)

lemma outcome_device:
  assumes "reachesDevice e d req v u s late lb a res"
  shows "markAttendance e d req =
     (case deviceBinding u v of
        Inl r \<Rightarrow> reject r d (effectsBeforeGate @ gateEffects s v (isLocationRequired s a))
      | Inr x \<Rightarrow>
          (let d' = (case x of None \<Rightarrow> d | Some u' \<Rightarrow> d\<lparr>users := (users d)(userId req \<mapsto> u')\<rparr>);
               rec = attendanceData e req v (isLocationRequired s a) True late lb res
           in respond (Created rec)
                (d'\<lparr>attendances := attendances d @ [rec],
                    sessions := (sessions d)(sessionId req \<mapsto>
                      s\<lparr>assignedUsers := markPresent (userId req) late (assignedUsers s)\<rparr>)\<rparr>)
                (effectsBeforeGate @ gateEffects s v (isLocationRequired s a)
                   @ (case x of None \<Rightarrow> [] | Some u' \<Rightarrow> [SaveUser])
                   @ [SaveAttendance, SaveSession])))"
proof -
  have g: "locationGate e s v (isLocationRequired s a) = Inr (True, res)"
    and na: "findAssignment s (userId req) \<noteq> None"
    using assms by (simp_all add: reachesDevice_def)
  show ?thesis
    by (simp add: path_device[OF assms] admit_device_def commit_after_gate[OF g na] respond_def
        Let_def split: sum.splits option.splits)
qed


text \<open>The scenario reaches the device step.\<close>

lemma ex_reachesDevice:
  assumes "\<not> list_all isWhiteSpace (utf16 dev)" "\<not> list_all isWhiteSpace (utf16 ua)"
  shows "reachesDevice (ex_env 16200000) (ex_db_user u) (ex_request_from dev ua)
     (ex_validated\<lparr>v_deviceId := utf16 dev, v_userAgent := utf16 ua\<rparr>) u ex_session False None
     ex_assigned (Some ex_result)"
  using assms
  by (simp add: reachesDevice_def reachesLocation_def reachesTiming_def reachesSchedule_def
      ex_db_user_def ex_request_from_def ex_result_def ex_defs validateRequest_def
      checkUserLocation_def checkAccuracy_def validDeviceString_def trimIsEmpty_def
      fetchSettings_def isSessionDateToday_def existingAttendance_def earlyCheck_def
      lateMarking_def sessionStartDateTime_def scanWindowStart_def EARLY_WINDOW_HOURS_def
      setHours_def startOfLocalDay_def todayIST_def nowInIST_def IST_OFFSET_MS_def msPerDay_def
      findAssignment_def isLocationRequired_def locationGate_def verificationDataPresent_def
      js_rem_def Let_def)

lemma ex_strings:
  "\<not> list_all isWhiteSpace (utf16 ''device123'')"
  "\<not> list_all isWhiteSpace (utf16 ''Mozilla/5.0'')"
  "\<not> list_all isWhiteSpace (utf16 ''other-device'')"
  "\<not> list_all isWhiteSpace (utf16 ''curl/8.0'')"
  by (simp_all add: isWhiteSpace_def utf16_def)

text \<open>A created record and the verification behind it.\<close>

lemma isLocationRequired_iff:
  "isLocationRequired s a \<longleftrightarrow>
     sessionType s = PHYSICAL \<or> (sessionType s = HYBRID \<and> mode a = PHYSICAL_MODE)"
  by (auto simp: isLocationRequired_def)

lemma attendanceData_snapshot:
  "reverseGeocodeSnapshot (attendanceData e req v True vf late lb (Some r)) = reverseGeocode r"
  "a_confidenceScore (attendanceData e req v True vf late lb (Some r)) = confidenceScore r"
  "a_accuracyRadius (attendanceData e req v True vf late lb (Some r)) = accuracyRadius r"
  by (simp_all add: attendanceData_def Let_def)

lemma created_verified:
  assumes c: "response (markAttendance e d req) = Created rec"
    and s: "sessions d (sessionId req) = Some s"
    and a: "findAssignment s (userId req) = Some a"
    and rq: "isLocationRequired s a"
  shows "\<exists>lat lng acc res.
      asNumber (getProp (userLocation req) ''latitude'') = Some lat \<and>
      asNumber (getProp (userLocation req) ''longitude'') = Some lng \<and>
      asNumber (accuracy req) = Some acc \<and>
      verifyLocation e lat lng acc (sessionCity s) (sessionState s) (geofence s) = Inr (Some res) \<and>
      isValid res \<and>
      VerifyLocation lat lng acc (sessionCity s) (sessionState s) (geofence s)
        \<in> set (effects (markAttendance e d req)) \<and>
      locationVerified rec \<and>
      reverseGeocodeSnapshot rec = reverseGeocode res \<and>
      a_confidenceScore rec = confidenceScore res \<and>
      a_accuracyRadius rec = accuracyRadius res \<and>
      a_userLocation rec = Some (lat, lng)"
proof -
  from created_markAttendance[OF c] obtain v u s' late lb a' res x where
    rd: "reachesDevice e d req v u s' late lb a' res" and db: "deviceBinding u v = Inr x"
    and rec: "rec = attendanceData e req v (isLocationRequired s' a') True late lb res"
    by blast
  from rd s have s': "s' = s"
    by (simp add: reachesDevice_def reachesLocation_def reachesTiming_def reachesSchedule_def)
  from rd a s' have a': "a' = a" by (simp add: reachesDevice_def)
  from rd have vr: "validateRequest req = Inr v"
    by (simp add: reachesDevice_def reachesLocation_def reachesTiming_def reachesSchedule_def)
  from rd s' a' have g: "locationGate e s v (isLocationRequired s a) = Inr (True, res)"
    by (simp add: reachesDevice_def)
  with rq obtain r where r: "res = Some r" "isValid r"
    "verifyLocation e (v_latitude v) (v_longitude v) (v_accuracyRadius v)
       (sessionCity s) (sessionState s) (geofence s) = Inr (Some r)"
    by (auto simp: locationGate_Inr)
  from validateRequest_Inr[OF vr] have
    co: "asNumber (getProp (userLocation req) ''latitude'') = Some (v_latitude v)"
        "asNumber (getProp (userLocation req) ''longitude'') = Some (v_longitude v)"
        "asNumber (accuracy req) = Some (v_accuracyRadius v)"
    by (simp_all add: checkUserLocation_Inr checkAccuracy_Inr)
  have ef: "VerifyLocation (v_latitude v) (v_longitude v) (v_accuracyRadius v)
        (sessionCity s) (sessionState s) (geofence s) \<in> set (effects (markAttendance e d req))"
    using db rq by (simp add: outcome_device[OF rd] s' a' gateEffects_def verifyCall_def
        respond_def Let_def)
  have f: "locationVerified rec" "reverseGeocodeSnapshot rec = reverseGeocode r"
      "a_confidenceScore rec = confidenceScore r" "a_accuracyRadius rec = accuracyRadius r"
      "a_userLocation rec = Some (v_latitude v, v_longitude v)"
    using rq by (simp_all add: rec s' a' r(1) attendanceData_fields attendanceData_snapshot)
  show ?thesis using co r(2,3) ef f by blast
qed

lemma created_locationVerified:
  "response (markAttendance e d req) = Created rec \<Longrightarrow> locationVerified rec"
  using created_markAttendance[of e d req rec] by (auto simp: attendanceData_fields)

lemma gate_failure:
  assumes l: "reachesLocation e d req v u s late lb"
    and a: "findAssignment s (userId req) = Some a"
    and rq: "isLocationRequired s a"
    and nv: "\<forall>res. verifyLocation e (v_latitude v) (v_longitude v) (v_accuracyRadius v)
        (sessionCity s) (sessionState s) (geofence s) = Inr (Some res) \<longrightarrow> \<not> isValid res"
  shows "\<exists>msg. markAttendance e d req =
     reject (Reject 403 (MAPMYINDIA_VERIFICATION_FAILED msg)) d (effectsBeforeGate @ [verifyCall s v])"
proof -
  from nv rq have "\<forall>vf res. locationGate e s v (isLocationRequired s a) \<noteq> Inr (vf, res)"
    by (auto simp: locationGate_Inr)
  then obtain r where r: "locationGate e s v (isLocationRequired s a) = Inl r"
    by (cases "locationGate e s v (isLocationRequired s a)") auto
  from locationGate_Inl[OF r] obtain msg where m: "r = Reject 403 (MAPMYINDIA_VERIFICATION_FAILED msg)"
    by blast
  have "markAttendance e d req =
     reject (Reject 403 (MAPMYINDIA_VERIFICATION_FAILED msg)) d (effectsBeforeGate @ [verifyCall s v])"
    using r a rq m by (simp add: path_location[OF l] admit_location_def Let_def gateEffects_def)
  then show ?thesis by blast
qed

text \<open>The rejections of \<^verbatim>\<open>markAttendance\<close>: their status, and where the strict closure comes from.\<close>

lemma validateRequest_Inl_400:
  "validateRequest req = Inl r \<Longrightarrow>
     \<exists>x. r = Reject 400 x \<and> (\<forall>m sec. x \<noteq> WINDOW_CLOSED_STRICT m sec)"
  by (auto simp: validateRequest_def split: if_splits option.splits sum.splits
      dest!: checkUserLocation_Inl checkAccuracy_Inl)

lemma location_rejected:
  "response (admit_location e d req v u s late lb effs) = Rejected (Reject n r) \<Longrightarrow>
     n = 403 \<and> (\<forall>m sec. r \<noteq> WINDOW_CLOSED_STRICT m sec)"
  using location_cases[of e d req v u s late lb effs] by auto

lemma timing_rejected:
  "response (admit_timing e d req v u s L st effs) = Rejected (Reject n r) \<Longrightarrow>
     (n = 400 \<or> n = 403) \<and> (\<forall>m sec. r = WINDOW_CLOSED_STRICT m sec \<longrightarrow> st)"
proof (cases "earlyCheck e s")
  case (Some x)
  assume "response (admit_timing e d req v u s L st effs) = Rejected (Reject n r)"
  with Some have "x = Reject n r"
    by (simp add: admit_timing_def reject_def respond_def)
  with Some show ?thesis by (auto simp: earlyCheck_Some)
next
  case None
  assume h: "response (admit_timing e d req v u s L st effs) = Rejected (Reject n r)"
  show ?thesis
  proof (cases "lateMarking L st e s")
    case (Inl x)
    with h None have "x = Reject n r"
      by (simp add: admit_timing_def reject_def respond_def)
    with Inl show ?thesis by (auto simp: lateMarking_cases split: if_splits)
  next
    case (Inr p)
    obtain late lb where "p = (late, lb)" by (cases p)
    with Inr None h have "response (admit_location e d req v u s late lb effs) = Rejected (Reject n r)"
      by (simp add: admit_timing_def)
    from location_rejected[OF this] show ?thesis by simp
  qed
qed

lemma schedule_rejected:
  "response (admit_schedule e d req v u s L st effs) = Rejected (Reject n r) \<Longrightarrow>
     (n = 400 \<or> n = 403) \<and> (\<forall>m sec. r = WINDOW_CLOSED_STRICT m sec \<longrightarrow> st)"
  by (auto simp: admit_schedule_def reject_def respond_def split: if_splits option.splits
      dest!: timing_rejected)

lemma markAttendance_rejected:
  assumes "response (markAttendance e d req) = Rejected (Reject n r)"
  shows "(n = 400 \<or> n = 403 \<or> n = 404) \<and> (\<forall>m sec. r = WINDOW_CLOSED_STRICT m sec \<longrightarrow> strictModeOf d)"
proof (cases "validateRequest req")
  case (Inl x)
  with validateRequest_Inl_400[OF Inl] assms show ?thesis
    by (auto simp: markAttendance_def reject_def respond_def)
next
  case (Inr v)
  with assms show ?thesis
    by (auto simp: markAttendance_def reject_def respond_def strictModeOf_def
        split: if_splits option.splits dest!: schedule_rejected)
qed

text \<open>The settings when the lookup fails, and the late marking under the defaults.\<close>

lemma fallback_limits:
  "orgSettings d = SettingsUnavailable \<or> orgSettings d = NoSettings \<Longrightarrow>
     fetchSettings (orgSettings d) = (30, False) \<and> lateLimitOf d = 30 \<and> \<not> strictModeOf d"
  by (auto simp: lateLimitOf_def strictModeOf_def fetchSettings_def)

lemma lateMarking_default:
  "lateMarking 30 False e s =
     (if 0 < timeDifferenceMs e s then Inr (True, Some \<lfloor>timeDifferenceMinutes e s\<rfloor>)
      else Inr (False, None))"
  by (auto simp: lateMarking_cases minutes_pos[symmetric])

lemma ex_reachesTiming_settings:
  "- 19800000 \<le> now \<Longrightarrow> now < 66600000 \<Longrightarrow>
     reachesTiming (ex_env now) (ex_db\<lparr>orgSettings := l\<rparr>) ex_request ex_validated ex_user ex_session"
  using ex_reachesTiming[of now]
  by (simp add: reachesTiming_def reachesSchedule_def ex_db_def)

text \<open>What \<^verbatim>\<open>forceMarkAttendance\<close> does to the attendance collection.\<close>

lemma forceVerified_split:
  "attendanceOf uid sid atts = Some x \<Longrightarrow>
     \<exists>pre post. atts = pre @ x # post \<and> attendanceOf uid sid pre = None \<and>
       forceVerified uid sid atts =
         pre @ x\<lparr>locationVerified := True, isLate := False, lateByMinutes := None\<rparr> # post"
proof (induction atts)
  case Nil
  then show ?case by (simp add: attendanceOf_def)
next
  case (Cons a as)
  show ?case
  proof (cases "a_userId a = uid \<and> a_sessionId a = sid")
    case True
    with Cons.prems have "x = a" by (simp add: attendanceOf_def)
    with True have "a # as = [] @ x # as \<and> attendanceOf uid sid [] = None \<and>
       forceVerified uid sid (a # as) =
         [] @ x\<lparr>locationVerified := True, isLate := False, lateByMinutes := None\<rparr> # as"
      by (simp add: attendanceOf_def)
    then show ?thesis by blast
  next
    case False
    with Cons.prems have "attendanceOf uid sid as = Some x" by (simp add: attendanceOf_def)
    from Cons.IH[OF this] obtain pre post where
      p: "as = pre @ x # post" "attendanceOf uid sid pre = None"
         "forceVerified uid sid as =
            pre @ x\<lparr>locationVerified := True, isLate := False, lateByMinutes := None\<rparr> # post"
      by blast
    with False have "a # as = (a # pre) @ x # post \<and> attendanceOf uid sid (a # pre) = None \<and>
       forceVerified uid sid (a # as) =
         (a # pre) @ x\<lparr>locationVerified := True, isLate := False, lateByMinutes := None\<rparr> # post"
      by (simp add: attendanceOf_def)
    then show ?thesis by blast
  qed
qed

lemma attendanceOf_Some: "attendanceOf uid sid atts = Some x \<Longrightarrow> a_userId x = uid \<and> a_sessionId x = sid"
  by (auto simp: attendanceOf_def find_Some_iff)

lemma attendanceOf_append:
  "attendanceOf uid sid (pre @ x # post) =
     (case attendanceOf uid sid pre of
        None \<Rightarrow> if a_userId x = uid \<and> a_sessionId x = sid then Some x else attendanceOf uid sid post
      | Some y \<Rightarrow> Some y)"
  by (induction pre) (simp_all add: attendanceOf_def)

lemma forceRoster_attendances:
  "attendances (fst (forceRoster d q s)) = attendances d"
  "\<not> list_ex isVerifyLocation (snd (forceRoster d q s))"
  by (simp_all add: forceRoster_def isVerifyLocation_def)

lemma forceMarked_iff:
  "response (forceMarkAttendance e d q) = ForceMarked st \<longleftrightarrow>
     f_validationErrors q = [] \<and> f_role q = ''PLATFORM_OWNER'' \<and>
     isValidObjectId e (f_sessionId q) \<and> isValidObjectId e (f_userId q) \<and>
     (st = ''Present'' \<or> st = ''Absent'') \<and> f_status q = st \<and>
     users d (f_userId q) \<noteq> None \<and> sessions d (f_sessionId q) \<noteq> None"
  by (auto simp: forceMarkAttendance_def reject_def respond_def Let_def split: option.splits)

lemma force_present:
  assumes "response (forceMarkAttendance e d q) = ForceMarked ''Present''"
  shows "\<not> list_ex isVerifyLocation (effects (forceMarkAttendance e d q))"
    and "attendances (db_after (forceMarkAttendance e d q)) =
      (case attendanceOf (f_userId q) (f_sessionId q) (attendances d) of
         None \<Rightarrow> attendances d @ [forcedRecord e q]
       | Some x \<Rightarrow> forceVerified (f_userId q) (f_sessionId q) (attendances d))"
proof -
  from assms obtain u s where
    h: "f_validationErrors q = []" "f_role q = ''PLATFORM_OWNER''"
       "isValidObjectId e (f_sessionId q)" "isValidObjectId e (f_userId q)"
       "f_status q = ''Present''" "users d (f_userId q) = Some u" "sessions d (f_sessionId q) = Some s"
    unfolding forceMarked_iff by auto
  show "\<not> list_ex isVerifyLocation (effects (forceMarkAttendance e d q))"
    using h by (simp add: forceMarkAttendance_def respond_def Let_def forceRoster_attendances
        isVerifyLocation_def)
  show "attendances (db_after (forceMarkAttendance e d q)) =
      (case attendanceOf (f_userId q) (f_sessionId q) (attendances d) of
         None \<Rightarrow> attendances d @ [forcedRecord e q]
       | Some x \<Rightarrow> forceVerified (f_userId q) (f_sessionId q) (attendances d))"
    using h by (simp add: forceMarkAttendance_def respond_def Let_def forceRoster_attendances
        attendanceOf_def split: option.splits)
qed

lemma force_independent:
  "forceMarkAttendance (e\<lparr>verifyLocation := f\<rparr>) d q = forceMarkAttendance e d q"
proof -
  have fr: "forcedRecord (e\<lparr>verifyLocation := f\<rparr>) = forcedRecord e"
    by (simp add: forcedRecord_def fun_eq_iff)
  show ?thesis unfolding forceMarkAttendance_def fr by simp
qed

lemma force_present_records:
  assumes "response (forceMarkAttendance e d q) = ForceMarked ''Present''"
  shows "(attendanceOf (f_userId q) (f_sessionId q) (attendances d) = None \<longrightarrow>
            attendances (db_after (forceMarkAttendance e d q)) = attendances d @ [forcedRecord e q] \<and>
            locationVerified (forcedRecord e q))
      \<and> (\<forall>x. attendanceOf (f_userId q) (f_sessionId q) (attendances d) = Some x \<longrightarrow>
            (\<exists>pre post. attendances d = pre @ x # post \<and>
               attendanceOf (f_userId q) (f_sessionId q) pre = None \<and>
               attendances (db_after (forceMarkAttendance e d q)) =
                 pre @ x\<lparr>locationVerified := True, isLate := False, lateByMinutes := None\<rparr> # post))
      \<and> (\<exists>r. attendanceOf (f_userId q) (f_sessionId q)
                (attendances (db_after (forceMarkAttendance e d q))) = Some r \<and>
              locationVerified r)"
proof -
  let ?uid = "f_userId q" and ?sid = "f_sessionId q"
  note a = force_present(2)[OF assms]
  have 1: "attendanceOf ?uid ?sid (attendances d) = None \<longrightarrow>
            attendances (db_after (forceMarkAttendance e d q)) = attendances d @ [forcedRecord e q] \<and>
            locationVerified (forcedRecord e q)"
    by (simp add: a forcedRecord_def)
  have 2: "\<exists>pre post. attendances d = pre @ x # post \<and> attendanceOf ?uid ?sid pre = None \<and>
               attendances (db_after (forceMarkAttendance e d q)) =
                 pre @ x\<lparr>locationVerified := True, isLate := False, lateByMinutes := None\<rparr> # post"
    if x: "attendanceOf ?uid ?sid (attendances d) = Some x" for x
    using forceVerified_split[OF x] by (simp add: a x)
  have 3: "\<exists>r. attendanceOf ?uid ?sid (attendances (db_after (forceMarkAttendance e d q))) = Some r \<and>
              locationVerified r"
  proof (cases "attendanceOf ?uid ?sid (attendances d)")
    case None
    then have "attendanceOf ?uid ?sid (attendances (db_after (forceMarkAttendance e d q)))
        = Some (forcedRecord e q)"
      using attendanceOf_append[of ?uid ?sid "attendances d" "forcedRecord e q" "[]"]
      by (simp add: a forcedRecord_def attendanceOf_def)
    then show ?thesis by (simp add: forcedRecord_def)
  next
    case (Some x)
    from 2[OF Some] obtain pre post where
      p: "attendanceOf ?uid ?sid pre = None"
         "attendances (db_after (forceMarkAttendance e d q)) =
            pre @ x\<lparr>locationVerified := True, isLate := False, lateByMinutes := None\<rparr> # post"
      by blast
    have "attendanceOf ?uid ?sid (attendances (db_after (forceMarkAttendance e d q)))
        = Some (x\<lparr>locationVerified := True, isLate := False, lateByMinutes := None\<rparr>)"
      using attendanceOf_Some[OF Some] by (simp add: p attendanceOf_append)
    then show ?thesis by simp
  qed
  show ?thesis using 1 2 3 by blast
qed

section \<open>Properties of the admission engine\<close>

subsection \<open>Raw payload validation\<close>

text \<open>
  Claim C8. For a request that has passed the route validators and carries a device id, a
  user agent and a location object (the checks that precede the location payload in the
  source), \<^verbatim>\<open>markAttendance\<close> answers, with no effect at all (no database access, no
  call of the verification service) and the database unchanged:
  \<^item> \<open>INVALID_LOCATION_COORDS\<close> if the latitude or the longitude is missing or not a number;
  \<^item> \<open>INVALID_LOCATION_ZERO\<close> if both are zero;
  \<^item> otherwise \<open>MISSING_ACCURACY\<close> if the accuracy is missing, not a number, or \<^verbatim>\<open>NaN\<close>;
  \<^item> otherwise \<open>INVALID_ACCURACY\<close> if the accuracy is at most 0 or greater than 1000;
  \<^item> otherwise validation succeeds; in particular an accuracy of exactly 1000 passes.
\<close>

theorem raw_payload_validation:
  assumes "validationErrors req = []"
    and "validDeviceString (deviceId req) = Some dev"
    and "validDeviceString (userAgent req) = Some ua"
    and "isObject (userLocation req)"
  shows "(asNumber (getProp (userLocation req) ''latitude'') = None \<or>
          asNumber (getProp (userLocation req) ''longitude'') = None
          \<longrightarrow> markAttendance e d req = reject (Reject 400 INVALID_LOCATION_COORDS) d [])
       \<and> (\<forall>lat lng. asNumber (getProp (userLocation req) ''latitude'') = Some lat \<and>
            asNumber (getProp (userLocation req) ''longitude'') = Some lng \<longrightarrow>
            (num_is_zero lat \<and> num_is_zero lng \<longrightarrow>
               markAttendance e d req = reject (Reject 400 INVALID_LOCATION_ZERO) d [])
          \<and> (\<not> (num_is_zero lat \<and> num_is_zero lng) \<longrightarrow>
               (asNumber (accuracy req) = None \<or> asNumber (accuracy req) = Some NaN \<longrightarrow>
                 markAttendance e d req = reject (Reject 400 MISSING_ACCURACY) d [])
             \<and> (\<forall>acc. asNumber (accuracy req) = Some acc \<and> acc \<noteq> NaN \<longrightarrow>
                 (num_le acc 0 \<or> num_gt acc 1000 \<longrightarrow>
                   markAttendance e d req = reject (Reject 400 INVALID_ACCURACY) d [])
               \<and> (\<not> num_le acc 0 \<and> \<not> num_gt acc 1000 \<longrightarrow>
                   validateRequest req = Inr \<lparr>v_deviceId = dev, v_userAgent = ua, v_latitude = lat,
                      v_longitude = lng, v_accuracyRadius = acc\<rparr>))
             \<and> (accuracy req = JNumber (Fin 1000) \<longrightarrow>
                   validateRequest req = Inr \<lparr>v_deviceId = dev, v_userAgent = ua, v_latitude = lat,
                      v_longitude = lng, v_accuracyRadius = Fin 1000\<rparr>)))"
  using assms
  by (auto simp: markAttendance_def validateRequest_def checkUserLocation_def checkAccuracy_def
      split: option.splits sum.splits)

theorem raw_payload_validation_witness:
  "markAttendance (ex_env 16200000) ex_db
      (ex_request\<lparr>userLocation := JObject [(''longitude'', JNumber (Fin 77.2090))]\<rparr>)
     = reject (Reject 400 INVALID_LOCATION_COORDS) ex_db []
   \<and> markAttendance (ex_env 16200000) ex_db
      (ex_request\<lparr>userLocation := JObject [(''latitude'', JNumber (Fin 0)),
                                            (''longitude'', JNumber (Fin 0))]\<rparr>)
     = reject (Reject 400 INVALID_LOCATION_ZERO) ex_db []
   \<and> markAttendance (ex_env 16200000) ex_db (ex_request\<lparr>accuracy := JUndefined\<rparr>)
     = reject (Reject 400 MISSING_ACCURACY) ex_db []
   \<and> markAttendance (ex_env 16200000) ex_db (ex_request\<lparr>accuracy := JNumber (Fin 1000.5)\<rparr>)
     = reject (Reject 400 INVALID_ACCURACY) ex_db []
   \<and> markAttendance (ex_env 16200000) ex_db (ex_request\<lparr>accuracy := JNumber (Fin 0)\<rparr>)
     = reject (Reject 400 INVALID_ACCURACY) ex_db []
   \<and> validateRequest (ex_request\<lparr>accuracy := JNumber (Fin 1000)\<rparr>)
     = Inr (ex_validated\<lparr>v_accuracyRadius := Fin 1000\<rparr>)"
proof -
  let ?e = "ex_env 16200000"
  note vd = validDeviceString_def trimIsEmpty_def isWhiteSpace_def utf16_def
  have 1: "markAttendance ?e ex_db
      (ex_request\<lparr>userLocation := JObject [(''longitude'', JNumber (Fin 77.2090))]\<rparr>)
     = reject (Reject 400 INVALID_LOCATION_COORDS) ex_db []"
    using raw_payload_validation[of
        "ex_request\<lparr>userLocation := JObject [(''longitude'', JNumber (Fin 77.2090))]\<rparr>"
        "utf16 ''device123''" "utf16 ''Mozilla/5.0''" ?e ex_db]
    by (simp add: ex_request_def vd)
  have 2: "markAttendance ?e ex_db
      (ex_request\<lparr>userLocation := JObject [(''latitude'', JNumber (Fin 0)),
                                            (''longitude'', JNumber (Fin 0))]\<rparr>)
     = reject (Reject 400 INVALID_LOCATION_ZERO) ex_db []"
    using raw_payload_validation[of
        "ex_request\<lparr>userLocation := JObject [(''latitude'', JNumber (Fin 0)),
                                            (''longitude'', JNumber (Fin 0))]\<rparr>"
        "utf16 ''device123''" "utf16 ''Mozilla/5.0''" ?e ex_db]
    by (simp add: ex_request_def vd)
  have 3: "markAttendance ?e ex_db (ex_request\<lparr>accuracy := a\<rparr>)
     = reject (Reject 400 MISSING_ACCURACY) ex_db []" if "a = JUndefined" for a
    using raw_payload_validation[of "ex_request\<lparr>accuracy := a\<rparr>"
        "utf16 ''device123''" "utf16 ''Mozilla/5.0''" ?e ex_db] that
    by (simp add: ex_request_def vd)
  have 4: "markAttendance ?e ex_db (ex_request\<lparr>accuracy := JNumber (Fin x)\<rparr>)
     = reject (Reject 400 INVALID_ACCURACY) ex_db []" if "x = 1000.5 \<or> x = 0" for x
    using raw_payload_validation[of "ex_request\<lparr>accuracy := JNumber (Fin x)\<rparr>"
        "utf16 ''device123''" "utf16 ''Mozilla/5.0''" ?e ex_db] that
    by (auto simp add: ex_request_def vd)
  have 5: "validateRequest (ex_request\<lparr>accuracy := JNumber (Fin 1000)\<rparr>)
     = Inr (ex_validated\<lparr>v_accuracyRadius := Fin 1000\<rparr>)"
    using raw_payload_validation[of "ex_request\<lparr>accuracy := JNumber (Fin 1000)\<rparr>"
        "utf16 ''device123''" "utf16 ''Mozilla/5.0''" ?e ex_db]
    by (simp add: ex_request_def ex_validated_def vd)
  show ?thesis using 1 2 3 4 5 by simp
qed


text \<open>
  Claim C10. The raw-payload validation is not gated on whether location verification is
  required: whenever the location object is missing, a coordinate is missing or not a
  number, both coordinates are zero, or the accuracy is missing, not a number, not
  positive or greater than 1000, the request alone determines a validation reason with
  which \<^verbatim>\<open>markAttendance\<close> answers 400 in every environment and on every database
  (whatever the session's type and the user's mode), with an empty effect log: neither the
  settings nor the user nor the session has been loaded.
\<close>

theorem payload_validation_not_gated:
  assumes "\<not> isObject (userLocation req)
     \<or> asNumber (getProp (userLocation req) ''latitude'') = None
     \<or> asNumber (getProp (userLocation req) ''longitude'') = None
     \<or> (\<exists>lat lng. asNumber (getProp (userLocation req) ''latitude'') = Some lat \<and>
          asNumber (getProp (userLocation req) ''longitude'') = Some lng \<and>
          num_is_zero lat \<and> num_is_zero lng)
     \<or> asNumber (accuracy req) = None
     \<or> asNumber (accuracy req) = Some NaN
     \<or> (\<exists>acc. asNumber (accuracy req) = Some acc \<and> (num_le acc 0 \<or> num_gt acc 1000))"
  shows "\<exists>r. r \<in> {VALIDATION_ERRORS (validationErrors req), MISSING_DEVICE_ID, MISSING_USER_AGENT,
                MISSING_LOCATION, INVALID_LOCATION_COORDS, INVALID_LOCATION_ZERO,
                MISSING_ACCURACY, INVALID_ACCURACY} \<and>
            (\<forall>e d. markAttendance e d req = reject (Reject 400 r) d [])"
proof -
  have "(\<forall>p. checkUserLocation (userLocation req) \<noteq> Inr p) \<or>
        (\<forall>acc. checkAccuracy (accuracy req) \<noteq> Inr acc)"
    using assms unfolding checkAccuracy_Inr
    by (auto simp: checkUserLocation_Inr)
  from validateRequest_Inl[OF this] obtain r where
    r: "validateRequest req = Inl (Reject 400 r)"
       "r \<in> {VALIDATION_ERRORS (validationErrors req), MISSING_DEVICE_ID, MISSING_USER_AGENT,
          MISSING_LOCATION, INVALID_LOCATION_COORDS, INVALID_LOCATION_ZERO,
          MISSING_ACCURACY, INVALID_ACCURACY}"
    by blast
  have "\<forall>e d. markAttendance e d req = reject (Reject 400 r) d []"
    by (simp add: markAttendance_def r(1))
  with r(2) show ?thesis by blast
qed

theorem payload_validation_not_gated_witness:
  "markAttendance (ex_env 16200000) ex_remote_db
      (ex_request\<lparr>userLocation := JObject [(''latitude'', JNumber (Fin 0)),
                                            (''longitude'', JNumber (Fin 0))]\<rparr>)
     = reject (Reject 400 INVALID_LOCATION_ZERO) ex_remote_db []
   \<and> markAttendance (ex_env 16200000) ex_remote_db ex_request
     = respond (Created (ex_remote_record 16200000))
         (ex_remote_db\<lparr>attendances := [ex_remote_record 16200000],
            sessions := [''s1'' \<mapsto> ex_session\<lparr>sessionType := REMOTE,
               assignedUsers := [ex_assigned\<lparr>attendanceStatus := ''Present''\<rparr>]\<rparr>]\<rparr>)
         [FetchSettings, FindUserAndSession, FindAttendance, SaveAttendance, SaveSession]"
  using payload_validation_not_gated[of
      "ex_request\<lparr>userLocation := JObject [(''latitude'', JNumber (Fin 0)),
                                            (''longitude'', JNumber (Fin 0))]\<rparr>"]
  by (simp add: ex_defs eval_defs ex_remote_db_def ex_record_def ex_remote_record_def)

subsection \<open>Organization settings\<close>

text \<open>
  Claim C9. When the settings lookup throws or finds nothing, the late limit is 30 minutes
  and strict mode is off, and the attempt is answered exactly as if the provider had
  returned a document with these two values: same response, same effects. The attempt is
  not failed: a rejection, if there is one, has status 400, 403 or 404 and is never the
  strict closure of the window. Lateness is classified with the defaults: an attempt that
  has passed the window check goes on to the location step, marked late with the whole
  minutes since the session start when the clock is past the start (within the 30 minutes
  or beyond them, strict mode being off), and as on time otherwise; the record of an
  admitted attempt carries that mark and that number of minutes.
\<close>

theorem settings_fallback:
  assumes "orgSettings d = SettingsUnavailable \<or> orgSettings d = NoSettings"
  shows "fetchSettings (orgSettings d) = (30, False)
     \<and> lateLimitOf d = 30 \<and> \<not> strictModeOf d
     \<and> response (markAttendance e d req)
         = response (markAttendance e (d\<lparr>orgSettings :=
              FoundSettings \<lparr>lateAttendanceLimit = 30, isStrictAttendance = Some False\<rparr>\<rparr>) req)
     \<and> effects (markAttendance e d req)
         = effects (markAttendance e (d\<lparr>orgSettings :=
              FoundSettings \<lparr>lateAttendanceLimit = 30, isStrictAttendance = Some False\<rparr>\<rparr>) req)
     \<and> (\<forall>n r. response (markAttendance e d req) = Rejected (Reject n r) \<longrightarrow>
           (n = 400 \<or> n = 403 \<or> n = 404) \<and> (\<forall>m sec. r \<noteq> WINDOW_CLOSED_STRICT m sec))
     \<and> (reachesTiming e d req v u s \<and> earlyCheck e s = None \<longrightarrow>
           (0 < timeDifferenceMs e s \<longrightarrow>
              markAttendance e d req =
                admit_location e d req v u s True (Some \<lfloor>timeDifferenceMinutes e s\<rfloor>)
                  effectsBeforeGate)
         \<and> (timeDifferenceMs e s \<le> 0 \<longrightarrow>
              markAttendance e d req = admit_location e d req v u s False None effectsBeforeGate)
         \<and> (\<forall>rec. response (markAttendance e d req) = Created rec \<longrightarrow>
              (isLate rec \<longleftrightarrow> 0 < timeDifferenceMs e s) \<and>
              lateByMinutes rec =
                (if 0 < timeDifferenceMs e s then Some (timeDifferenceMs e s div 60000) else None)))"
proof -
  let ?dflt = "FoundSettings \<lparr>lateAttendanceLimit = 30, isStrictAttendance = Some False\<rparr>"
  note L = fallback_limits[OF assms]
  have f: "fetchSettings ?dflt = (30, False)"
    by (simp add: fetchSettings_def)
  have same: "response (markAttendance e d req)
         = response (markAttendance e (d\<lparr>orgSettings := ?dflt\<rparr>) req)
     \<and> effects (markAttendance e d req)
         = effects (markAttendance e (d\<lparr>orgSettings := ?dflt\<rparr>) req)"
    by (rule markAttendance_indep) (simp_all add: L f)
  have rej: "\<forall>n r. response (markAttendance e d req) = Rejected (Reject n r) \<longrightarrow>
           (n = 400 \<or> n = 403 \<or> n = 404) \<and> (\<forall>m sec. r \<noteq> WINDOW_CLOSED_STRICT m sec)"
    using markAttendance_rejected[of e d req] L by blast
  have cls: "(0 < timeDifferenceMs e s \<longrightarrow>
              markAttendance e d req =
                admit_location e d req v u s True (Some \<lfloor>timeDifferenceMinutes e s\<rfloor>)
                  effectsBeforeGate)
         \<and> (timeDifferenceMs e s \<le> 0 \<longrightarrow>
              markAttendance e d req = admit_location e d req v u s False None effectsBeforeGate)
         \<and> (\<forall>rec. response (markAttendance e d req) = Created rec \<longrightarrow>
              (isLate rec \<longleftrightarrow> 0 < timeDifferenceMs e s) \<and>
              lateByMinutes rec =
                (if 0 < timeDifferenceMs e s then Some (timeDifferenceMs e s div 60000) else None))"
    if rt: "reachesTiming e d req v u s" and ec: "earlyCheck e s = None"
  proof -
    have p: "markAttendance e d req =
       (if 0 < timeDifferenceMs e s
        then admit_location e d req v u s True (Some \<lfloor>timeDifferenceMinutes e s\<rfloor>) effectsBeforeGate
        else admit_location e d req v u s False None effectsBeforeGate)"
      using path_after_timing[OF rt ec refl] L by (simp add: lateMarking_default)
    have c: "(isLate rec \<longleftrightarrow> 0 < timeDifferenceMs e s) \<and>
              lateByMinutes rec =
                (if 0 < timeDifferenceMs e s then Some (timeDifferenceMs e s div 60000) else None)"
      if "response (markAttendance e d req) = Created rec" for rec
      using that created_late_fields[of e d req v u s _ _ effectsBeforeGate rec]
      by (auto simp: p floor_minutes split: if_splits)
    show ?thesis using p c by auto
  qed
  show ?thesis using L same rej cls by blast
qed

theorem settings_fallback_witness:
  "response (markAttendance (ex_env 21900000) (ex_db\<lparr>orgSettings := SettingsUnavailable\<rparr>) ex_request)
     = Created ((ex_record 21900000)\<lparr>isLate := True, lateByMinutes := Some 35\<rparr>)
   \<and> response (markAttendance (ex_env 21000000) (ex_db\<lparr>orgSettings := NoSettings\<rparr>) ex_request)
     = Created ((ex_record 21000000)\<lparr>isLate := True, lateByMinutes := Some 20\<rparr>)
   \<and> response (markAttendance (ex_env 16200000) (ex_db\<lparr>orgSettings := SettingsUnavailable\<rparr>) ex_request)
     = Created (ex_record 16200000)
   \<and> effects (markAttendance (ex_env 21900000) (ex_db\<lparr>orgSettings := SettingsUnavailable\<rparr>) ex_request)
     = effectsBeforeGate @ [ex_verify_effect, SaveAttendance, SaveSession]
   \<and> markAttendance (ex_env 21900000) ex_strict_db ex_request
     = reject (Reject 400 (WINDOW_CLOSED_STRICT 35 0)) ex_strict_db effectsBeforeGate"
proof -
  note ev = ex_timeDifferenceMs ex_admit_location
  have 1: "response (markAttendance (ex_env 21900000) (ex_db\<lparr>orgSettings := SettingsUnavailable\<rparr>)
        ex_request)
     = Created ((ex_record 21900000)\<lparr>isLate := True, lateByMinutes := Some 35\<rparr>)"
    using settings_fallback[of "ex_db\<lparr>orgSettings := SettingsUnavailable\<rparr>" "ex_env 21900000"
        ex_request ex_validated ex_user ex_session]
      ex_reachesTiming_settings[of 21900000 SettingsUnavailable] ex_earlyCheck[of 21900000]
    by (simp add: ev timeDifferenceMinutes_def)
  have 2: "response (markAttendance (ex_env 21000000) (ex_db\<lparr>orgSettings := NoSettings\<rparr>)
        ex_request)
     = Created ((ex_record 21000000)\<lparr>isLate := True, lateByMinutes := Some 20\<rparr>)"
    using settings_fallback[of "ex_db\<lparr>orgSettings := NoSettings\<rparr>" "ex_env 21000000"
        ex_request ex_validated ex_user ex_session]
      ex_reachesTiming_settings[of 21000000 NoSettings] ex_earlyCheck[of 21000000]
    by (simp add: ev timeDifferenceMinutes_def)
  have 3: "response (markAttendance (ex_env 16200000) (ex_db\<lparr>orgSettings := SettingsUnavailable\<rparr>)
        ex_request)
     = Created (ex_record 16200000)"
    using settings_fallback[of "ex_db\<lparr>orgSettings := SettingsUnavailable\<rparr>" "ex_env 16200000"
        ex_request ex_validated ex_user ex_session]
      ex_reachesTiming_settings[of 16200000 SettingsUnavailable] ex_earlyCheck[of 16200000]
    by (simp add: ev ex_record_def)
  have 4: "effects (markAttendance (ex_env 21900000) (ex_db\<lparr>orgSettings := SettingsUnavailable\<rparr>)
        ex_request)
     = effectsBeforeGate @ [ex_verify_effect, SaveAttendance, SaveSession]"
    by (simp add: ex_defs eval_defs ex_verify_effect_def effectsBeforeGate_def)
  have 5: "markAttendance (ex_env 21900000) ex_strict_db ex_request
     = reject (Reject 400 (WINDOW_CLOSED_STRICT 35 0)) ex_strict_db effectsBeforeGate"
    by (simp add: ex_defs eval_defs ex_strict_db_def effectsBeforeGate_def)
  show ?thesis using 1 2 3 4 5 by blast
qed

subsection \<open>Session location fix\<close>

text \<open>
  Claim C2 says that a location-required attempt for a session whose location descriptor
  has no resolvable coordinates is rejected as \<open>SESSION_LOCATION_NOT_CONFIGURED\<close> before
  any verification call. The controller never reads the descriptor. Evaluated on a
  physical session whose descriptor is a link without coordinates, and on one with no
  descriptor at all, it calls the verification service and creates the record.
\<close>

theorem link_session_without_coordinates_is_admitted:
  "markAttendance (ex_env 16200000) ex_link_db ex_request
     = respond (Created (ex_record 16200000))
         (ex_link_db\<lparr>attendances := [ex_record 16200000],
            sessions := [''s1'' \<mapsto> ex_session\<lparr>
               location := Some \<lparr>loc_type = LINK, loc_geolocation = None,
                                 loc_link = Some ''https://maps.google.com/...''\<rparr>,
               geolocation := None,
               assignedUsers := [ex_assigned\<lparr>attendanceStatus := ''Present''\<rparr>]\<rparr>]\<rparr>)
         [FetchSettings, FindUserAndSession, FindAttendance,
          VerifyLocation (Fin 28.6139) (Fin 77.2090) (Fin 20) (Some ''New Delhi'') (Some ''Delhi'') None,
          SaveAttendance, SaveSession]
   \<and> response (markAttendance (ex_env 16200000) ex_nolocation_db ex_request)
       = Created (ex_record 16200000)
   \<and> effects (markAttendance (ex_env 16200000) ex_nolocation_db ex_request)
       = [FetchSettings, FindUserAndSession, FindAttendance,
          VerifyLocation (Fin 28.6139) (Fin 77.2090) (Fin 20) (Some ''New Delhi'') (Some ''Delhi'') None,
          SaveAttendance, SaveSession]"
  by (simp add: ex_defs eval_defs ex_link_db_def ex_nolocation_db_def ex_record_def)

subsection \<open>Schedule\<close>

text \<open>
  Claim C6, as the controller decides it. A one-time session occurs today iff the local
  date of its start date is today's. A daily or monthly session occurs today iff today lies
  in its date range (the end date included). A weekly session occurs today iff today lies
  in its date range and its list of week days is empty (or absent) or contains today's day
  name. An attempt that has passed field validation and found its user and its session,
  for a session that does not occur today, is answered ``not scheduled today'' before the
  attendance collection, the verification service or the device binding is consulted.
\<close>

theorem schedule_resolver:
  "(frequency s = OneTime \<longrightarrow>
      (isSessionDateToday e s \<longleftrightarrow>
         localDay (tzOffset e) (startDate s) = localDay (tzOffset e) (nowInIST e)))
   \<and> (frequency s = Daily \<or> frequency s = Monthly \<longrightarrow>
      (isSessionDateToday e s \<longleftrightarrow> inDateRange e s))
   \<and> (frequency s = Weekly \<longrightarrow>
      (isSessionDateToday e s \<longleftrightarrow>
         inDateRange e s \<and> (weeklyDays s = [] \<or> todayDayName e \<in> set (weeklyDays s))))
   \<and> getDay (tzOffset e) (nowInIST e) < length dayNames
   \<and> (reachesSchedule e d req v u s \<and> \<not> isSessionDateToday e s \<longrightarrow>
        markAttendance e d req =
          reject (Reject 400 NOT_SCHEDULED_TODAY) d [FetchSettings, FindUserAndSession])"
proof -
  have 1: "frequency s = OneTime \<longrightarrow>
      (isSessionDateToday e s \<longleftrightarrow>
         localDay (tzOffset e) (startDate s) = localDay (tzOffset e) (nowInIST e))"
    by (simp add: isSessionDateToday_OneTime)
  have 2: "frequency s = Daily \<or> frequency s = Monthly \<longrightarrow>
      (isSessionDateToday e s \<longleftrightarrow> inDateRange e s)"
    by (auto simp: isSessionDateToday_recurring)
  have 3: "frequency s = Weekly \<longrightarrow>
      (isSessionDateToday e s \<longleftrightarrow>
         inDateRange e s \<and> (weeklyDays s = [] \<or> todayDayName e \<in> set (weeklyDays s)))"
    by (auto simp: isSessionDateToday_recurring)
  have 5: "reachesSchedule e d req v u s \<and> \<not> isSessionDateToday e s \<longrightarrow>
        markAttendance e d req =
          reject (Reject 400 NOT_SCHEDULED_TODAY) d [FetchSettings, FindUserAndSession]"
    by (auto simp: path_schedule admit_schedule_def)
  show ?thesis using 1 2 3 5 getDay_less by blast
qed

theorem schedule_resolver_witness:
  "markAttendance (ex_env 448200000) (ex_weekly_db [''Monday'', ''Wednesday'']) ex_request
     = reject (Reject 400 NOT_SCHEDULED_TODAY) (ex_weekly_db [''Monday'', ''Wednesday''])
         [FetchSettings, FindUserAndSession]
   \<and> todayDayName (ex_env 448200000) = ''Tuesday''
   \<and> isSessionDateToday (ex_env 361800000) (ex_weekly [''Monday'', ''Wednesday''])
   \<and> todayDayName (ex_env 361800000) = ''Monday''
   \<and> isSessionDateToday (ex_env 16200000) ex_session
   \<and> \<not> isSessionDateToday (ex_env 102600000) ex_session
   \<and> isSessionDateToday (ex_env 235800000)
        (ex_session\<lparr>frequency := Daily, endDate := Some 172800000\<rparr>)
   \<and> \<not> isSessionDateToday (ex_env 322200000)
        (ex_session\<lparr>frequency := Daily, endDate := Some 172800000\<rparr>)"
proof -
  note ev = ex_defs ex_weekly_def localDay_def inDateRange_def todayDayName_def getDay_def
    dayNames_def nowInIST_def IST_OFFSET_MS_def msPerDay_def
  have tue: "todayDayName (ex_env 448200000) = ''Tuesday''"
    and mon: "todayDayName (ex_env 361800000) = ''Monday''"
    by (simp_all add: ev)
  have nt: "\<not> isSessionDateToday (ex_env 448200000) (ex_weekly [''Monday'', ''Wednesday''])"
    using schedule_resolver[of "ex_weekly [''Monday'', ''Wednesday'']" "ex_env 448200000"] tue
    by (simp add: ex_weekly_def ex_session_def)
  have 1: "markAttendance (ex_env 448200000) (ex_weekly_db [''Monday'', ''Wednesday'']) ex_request
     = reject (Reject 400 NOT_SCHEDULED_TODAY) (ex_weekly_db [''Monday'', ''Wednesday''])
         [FetchSettings, FindUserAndSession]"
    using schedule_resolver[of "ex_weekly [''Monday'', ''Wednesday'']" "ex_env 448200000"
        "ex_weekly_db [''Monday'', ''Wednesday'']" ex_request ex_validated ex_user]
      ex_reachesSchedule nt by blast
  have 2: "isSessionDateToday (ex_env 361800000) (ex_weekly [''Monday'', ''Wednesday''])"
    using schedule_resolver[of "ex_weekly [''Monday'', ''Wednesday'']" "ex_env 361800000"] mon
    by (simp add: ev)
  have 3: "isSessionDateToday (ex_env 16200000) ex_session"
      "\<not> isSessionDateToday (ex_env 102600000) ex_session"
    using schedule_resolver[of ex_session "ex_env 16200000"]
      schedule_resolver[of ex_session "ex_env 102600000"]
    by (simp_all add: ev)
  have 4: "isSessionDateToday (ex_env 235800000)
        (ex_session\<lparr>frequency := Daily, endDate := Some 172800000\<rparr>)"
      "\<not> isSessionDateToday (ex_env 322200000)
        (ex_session\<lparr>frequency := Daily, endDate := Some 172800000\<rparr>)"
    using schedule_resolver[of "ex_session\<lparr>frequency := Daily, endDate := Some 172800000\<rparr>" "ex_env 235800000"]
      schedule_resolver[of "ex_session\<lparr>frequency := Daily, endDate := Some 172800000\<rparr>" "ex_env 322200000"]
    by (simp_all add: ev)
  show ?thesis using 1 2 3 4 tue mon by blast
qed

text \<open>
  The claim as the specification words it makes a weekly session occur only on a listed
  week day. A weekly session with no listed days occurs on every day of its range: here on
  a Thursday, where the attempt is admitted.
\<close>

theorem weekly_without_days_counterexample:
  "frequency (ex_weekly []) = Weekly
   \<and> isSessionDateToday (ex_env 16200000) (ex_weekly [])
   \<and> todayDayName (ex_env 16200000) = ''Thursday''
   \<and> todayDayName (ex_env 16200000) \<notin> set (weeklyDays (ex_weekly []))
   \<and> response (markAttendance (ex_env 16200000) (ex_weekly_db []) ex_request)
       = Created (ex_record 16200000)"
  by (simp add: ex_defs eval_defs ex_weekly_def ex_weekly_db_def ex_record_def todayDayName_def
      getDay_def dayNames_def)

subsection \<open>Duplicate check\<close>

text \<open>
  Claim C3. For a one-time session the lookup finds a record iff some record has this user
  and this session, whatever its date. For a recurring session it finds one iff some
  record of this user and session has its check-in time between \<open>todayStartUTC\<close> and
  \<open>todayEndUTC\<close>; these bounds are today's local midnight and the last millisecond of
  today, moved back by the IST offset, so that an instant lies between them iff, shifted by
  the offset, it falls on today's local day. When a matching record exists (for the session
  the request names) the attempt is rejected, the database is unchanged and the log has no
  call of the verification service; if the attempt passed the earlier steps the rejection
  is ``already marked''.
\<close>

theorem duplicate_check:
  "(frequency s = OneTime \<longrightarrow>
      (existingAttendance e s uid sid atts \<noteq> None \<longleftrightarrow>
         (\<exists>a\<in>set atts. a_userId a = uid \<and> a_sessionId a = sid)))
   \<and> (frequency s \<noteq> OneTime \<longrightarrow>
      (existingAttendance e s uid sid atts \<noteq> None \<longleftrightarrow>
         (\<exists>a\<in>set atts. a_userId a = uid \<and> a_sessionId a = sid \<and>
            todayStartUTC e \<le> checkInTime a \<and> checkInTime a \<le> todayEndUTC e)))
   \<and> (todayStartUTC e \<le> t \<and> t \<le> todayEndUTC e \<longleftrightarrow>
        localDay (tzOffset e) (t + IST_OFFSET_MS) = localDay (tzOffset e) (nowInIST e))
   \<and> todayStartUTC e = todayIST e - IST_OFFSET_MS
   \<and> todayEndUTC e = todayStartUTC e + (msPerDay - 1)
   \<and> (sessions d (sessionId req) = Some s \<and>
       existingAttendance e s (userId req) (sessionId req) (attendances d) \<noteq> None \<longrightarrow>
         (\<exists>r. response (markAttendance e d req) = Rejected r) \<and>
         \<not> list_ex isVerifyLocation (effects (markAttendance e d req)) \<and>
         db_after (markAttendance e d req) = d)
   \<and> (reachesSchedule e d req v u s \<and> isSessionDateToday e s \<and>
       existingAttendance e s (userId req) (sessionId req) (attendances d) \<noteq> None \<longrightarrow>
         markAttendance e d req = reject (Reject 400 ALREADY_MARKED) d effectsBeforeGate)"
proof -
  have 1: "frequency s = OneTime \<longrightarrow>
      (existingAttendance e s uid sid atts \<noteq> None \<longleftrightarrow>
         (\<exists>a\<in>set atts. a_userId a = uid \<and> a_sessionId a = sid))"
    by (simp add: existingAttendance_iff del: not_None_eq)
  have 2: "frequency s \<noteq> OneTime \<longrightarrow>
      (existingAttendance e s uid sid atts \<noteq> None \<longleftrightarrow>
         (\<exists>a\<in>set atts. a_userId a = uid \<and> a_sessionId a = sid \<and>
            todayStartUTC e \<le> checkInTime a \<and> checkInTime a \<le> todayEndUTC e))"
    by (simp add: existingAttendance_iff del: not_None_eq)
  have 7: "reachesSchedule e d req v u s \<and> isSessionDateToday e s \<and>
       existingAttendance e s (userId req) (sessionId req) (attendances d) \<noteq> None \<longrightarrow>
         markAttendance e d req = reject (Reject 400 ALREADY_MARKED) d effectsBeforeGate"
    by (auto simp: path_schedule admit_schedule_def effectsBeforeGate_def)
  show ?thesis
    using 1 2 today_window[of e t] todayStartUTC_eq[of e] todayEndUTC_eq[of e]
      markAttendance_duplicate[of d req s e] 7
    by blast
qed


theorem duplicate_check_witness:
  "markAttendance (ex_env 16200000) (ex_db\<lparr>attendances := [ex_record (- 1000000000)]\<rparr>) ex_request
     = reject (Reject 400 ALREADY_MARKED) (ex_db\<lparr>attendances := [ex_record (- 1000000000)]\<rparr>)
         effectsBeforeGate
   \<and> markAttendance (ex_env 102600000) (ex_daily_db [ex_record 66600000]) ex_request
     = reject (Reject 400 ALREADY_MARKED) (ex_daily_db [ex_record 66600000]) effectsBeforeGate
   \<and> existingAttendance (ex_env 102600000) (ex_session\<lparr>frequency := Daily\<rparr>) ''user123'' ''s1''
        [ex_record 66599999] = None
   \<and> todayStartUTC (ex_env 102600000) = 66600000
   \<and> todayEndUTC (ex_env 102600000) = 152999999"
proof -
  note ev = ex_defs ex_daily_db_def ex_record_def reachesSchedule_def validateRequest_def
    checkUserLocation_def checkAccuracy_def validDeviceString_def trimIsEmpty_def isWhiteSpace_def utf16_def
    isSessionDateToday_def setHours_def startOfLocalDay_def todayIST_def nowInIST_def
    IST_OFFSET_MS_def msPerDay_def Let_def
  have 1: "markAttendance (ex_env 16200000) (ex_db\<lparr>attendances := [ex_record (- 1000000000)]\<rparr>)
       ex_request
     = reject (Reject 400 ALREADY_MARKED) (ex_db\<lparr>attendances := [ex_record (- 1000000000)]\<rparr>)
         effectsBeforeGate"
    using duplicate_check[of ex_session "ex_env 16200000" "''user123''" "''s1''"
        "[ex_record (- 1000000000)]" 0 "ex_db\<lparr>attendances := [ex_record (- 1000000000)]\<rparr>"
        ex_request ex_validated ex_user]
    by (simp add: ev)
  have w: "todayStartUTC (ex_env 102600000) = 66600000" "todayEndUTC (ex_env 102600000) = 152999999"
    using duplicate_check[of ex_session "ex_env 102600000"]
    by (simp_all add: ex_env_def todayIST_def startOfLocalDay_def nowInIST_def IST_OFFSET_MS_def
        msPerDay_def)
  have 2: "markAttendance (ex_env 102600000) (ex_daily_db [ex_record 66600000]) ex_request
     = reject (Reject 400 ALREADY_MARKED) (ex_daily_db [ex_record 66600000]) effectsBeforeGate"
    using duplicate_check[of "ex_session\<lparr>frequency := Daily\<rparr>" "ex_env 102600000" "''user123''"
        "''s1''" "[ex_record 66600000]" 0 "ex_daily_db [ex_record 66600000]"
        ex_request ex_validated ex_user] w
    by (simp add: ev)
  have 3: "existingAttendance (ex_env 102600000) (ex_session\<lparr>frequency := Daily\<rparr>) ''user123''
        ''s1'' [ex_record 66599999] = None"
    using duplicate_check[of "ex_session\<lparr>frequency := Daily\<rparr>" "ex_env 102600000" "''user123''"
        "''s1''" "[ex_record 66599999]"] w
    by (simp add: ex_session_def ex_record_def)
  show ?thesis using 1 2 3 w by blast
qed

subsection \<open>Scan window\<close>

text \<open>
  Claim C5. The scan window opens two hours before the session start. An attempt that
  reaches the window check (valid fields, user and session found, session scheduled today,
  no duplicate) while the clock (shifted to IST) is before the window start is rejected as
  too early; the response carries the formatted session start and window start, the whole
  hours remaining and the remaining minutes within the hour (between 0 and 59, together
  the whole minutes remaining), and nothing has been written or verified. At the boundary
  itself the window is open: the early check passes, and no attempt at or after the window
  start is ever answered ``too early''.
\<close>

theorem scan_window:
  "scanWindowStart e s = sessionStartDateTime e s - 2 * 60 * 60 * 1000
   \<and> (reachesTiming e d req v u s \<and> nowInIST e < scanWindowStart e s \<longrightarrow>
        markAttendance e d req =
          reject (Reject 400
             (TOO_EARLY (toLocaleTimeString e (sessionStartDateTime e s))
                (toLocaleTimeString e (scanWindowStart e s))
                ((scanWindowStart e s - nowInIST e) div 3600000)
                ((scanWindowStart e s - nowInIST e) mod 3600000 div 60000)))
            d effectsBeforeGate)
   \<and> 0 \<le> (scanWindowStart e s - nowInIST e) mod 3600000 div 60000
   \<and> (scanWindowStart e s - nowInIST e) mod 3600000 div 60000 < 60
   \<and> (scanWindowStart e s - nowInIST e) div 3600000 * 60
        + (scanWindowStart e s - nowInIST e) mod 3600000 div 60000
       = (scanWindowStart e s - nowInIST e) div 60000
   \<and> (nowInIST e = scanWindowStart e s \<longrightarrow> earlyCheck e s = None)
   \<and> (sessions d (sessionId req) = Some s \<and> scanWindowStart e s \<le> nowInIST e \<longrightarrow>
        (\<forall>c a b h m. response (markAttendance e d req) \<noteq> Rejected (Reject c (TOO_EARLY a b h m))))"
proof -
  have 1: "scanWindowStart e s = sessionStartDateTime e s - 2 * 60 * 60 * 1000"
    by (simp add: scanWindowStart_def EARLY_WINDOW_HOURS_def)
  have 2: "reachesTiming e d req v u s \<and> nowInIST e < scanWindowStart e s \<longrightarrow>
        markAttendance e d req =
          reject (Reject 400
             (TOO_EARLY (toLocaleTimeString e (sessionStartDateTime e s))
                (toLocaleTimeString e (scanWindowStart e s))
                ((scanWindowStart e s - nowInIST e) div 3600000)
                ((scanWindowStart e s - nowInIST e) mod 3600000 div 60000)))
            d effectsBeforeGate"
  proof
    assume h: "reachesTiming e d req v u s \<and> nowInIST e < scanWindowStart e s"
    then have "earlyCheck e s = Some (Reject 400
             (TOO_EARLY (toLocaleTimeString e (sessionStartDateTime e s))
                (toLocaleTimeString e (scanWindowStart e s))
                ((scanWindowStart e s - nowInIST e) div 3600000)
                ((scanWindowStart e s - nowInIST e) mod 3600000 div 60000)))"
      by (simp add: earlyCheck_Some)
    then show "markAttendance e d req =
          reject (Reject 400
             (TOO_EARLY (toLocaleTimeString e (sessionStartDateTime e s))
                (toLocaleTimeString e (scanWindowStart e s))
                ((scanWindowStart e s - nowInIST e) div 3600000)
                ((scanWindowStart e s - nowInIST e) mod 3600000 div 60000)))
            d effectsBeforeGate"
      using h path_timing[of e d req v u s] by (simp add: admit_timing_def)
  qed
  have 5: "nowInIST e = scanWindowStart e s \<longrightarrow> earlyCheck e s = None"
    by (simp add: earlyCheck_None)
  have 6: "sessions d (sessionId req) = Some s \<and> scanWindowStart e s \<le> nowInIST e \<longrightarrow>
        (\<forall>c a b h m. response (markAttendance e d req) \<noteq> Rejected (Reject c (TOO_EARLY a b h m)))"
    using markAttendance_not_too_early[of d req s e] by blast
  show ?thesis
    using 1 2 5 6 remaining_hm[of "scanWindowStart e s - nowInIST e"] by blast
qed

theorem scan_window_witness:
  "markAttendance (ex_env 9000000) ex_db ex_request
     = reject (Reject 400 (TOO_EARLY ''11:00 AM'' ''9:00 AM'' 1 0)) ex_db effectsBeforeGate
   \<and> markAttendance (ex_env 7500000) ex_db ex_request
     = reject (Reject 400 (TOO_EARLY ''11:00 AM'' ''9:00 AM'' 1 25)) ex_db effectsBeforeGate
   \<and> nowInIST (ex_env 12600000) = scanWindowStart (ex_env 12600000) ex_session
   \<and> earlyCheck (ex_env 12600000) ex_session = None
   \<and> response (markAttendance (ex_env 12600000) ex_db ex_request) = Created (ex_record 12600000)"
proof -
  have 1: "markAttendance (ex_env 9000000) ex_db ex_request
     = reject (Reject 400 (TOO_EARLY ''11:00 AM'' ''9:00 AM'' 1 0)) ex_db effectsBeforeGate"
    using scan_window[of "ex_env 9000000" ex_session ex_db ex_request ex_validated ex_user]
      ex_reachesTiming[of 9000000]
    by (simp add: ex_time_defs)
  have 2: "markAttendance (ex_env 7500000) ex_db ex_request
     = reject (Reject 400 (TOO_EARLY ''11:00 AM'' ''9:00 AM'' 1 25)) ex_db effectsBeforeGate"
    using scan_window[of "ex_env 7500000" ex_session ex_db ex_request ex_validated ex_user]
      ex_reachesTiming[of 7500000]
    by (simp add: ex_time_defs)
  have 3: "nowInIST (ex_env 12600000) = scanWindowStart (ex_env 12600000) ex_session"
    by (simp add: ex_time_defs)
  have 4: "earlyCheck (ex_env 12600000) ex_session = None"
    using scan_window[of "ex_env 12600000" ex_session] 3 by blast
  have 5: "response (markAttendance (ex_env 12600000) ex_db ex_request) = Created (ex_record 12600000)"
    by (simp add: ex_defs eval_defs ex_record_def)
  show ?thesis using 1 2 3 4 5 by blast
qed

subsection \<open>Lateness\<close>

text \<open>
  Claim C4. For an attempt that has passed the window check, with \<open>timeDifferenceMs\<close> the
  (IST-shifted) clock minus the session start, \<open>timeDifferenceMinutes\<close> that difference in
  minutes, and the limit and mode from the settings:
  \<^item> if the difference is positive and at most the limit, the attempt goes on to the location
    step marked late, with \<open>lateByMinutes\<close> the floor of the minutes;
  \<^item> if it exceeds the limit and strict mode is on, the attempt is rejected, reporting the
    floor of the minutes and the remaining whole seconds;
  \<^item> if it exceeds the limit and strict mode is off, the attempt goes on marked late, with
    \<open>lateByMinutes\<close> the floor of the minutes;
  \<^item> if the clock is at or before the session start (and the limit is not negative), the
    attempt goes on as on time, with no \<open>lateByMinutes\<close>;
  \<^item> the record created by an attempt that goes on carries exactly that mark and that
    number of minutes; the floor of the minutes is the integer quotient by 60000.
\<close>

theorem lateness_classification:
  assumes "reachesTiming e d req v u s" and "earlyCheck e s = None"
  shows "(0 < timeDifferenceMs e s \<and> timeDifferenceMinutes e s \<le> lateLimitOf d \<longrightarrow>
            markAttendance e d req =
              admit_location e d req v u s True (Some \<lfloor>timeDifferenceMinutes e s\<rfloor>) effectsBeforeGate)
     \<and> (lateLimitOf d < timeDifferenceMinutes e s \<and> strictModeOf d \<longrightarrow>
            markAttendance e d req =
              reject (Reject 400 (WINDOW_CLOSED_STRICT \<lfloor>timeDifferenceMinutes e s\<rfloor>
                        (js_rem (timeDifferenceMs e s) 60000 div 1000))) d effectsBeforeGate)
     \<and> (lateLimitOf d < timeDifferenceMinutes e s \<and> \<not> strictModeOf d \<longrightarrow>
            markAttendance e d req =
              admit_location e d req v u s True (Some \<lfloor>timeDifferenceMinutes e s\<rfloor>) effectsBeforeGate)
     \<and> (timeDifferenceMs e s \<le> 0 \<and> 0 \<le> lateLimitOf d \<longrightarrow>
            markAttendance e d req = admit_location e d req v u s False None effectsBeforeGate)
     \<and> (\<forall>late lb a. response (admit_location e d req v u s late lb effectsBeforeGate) = Created a
            \<longrightarrow> isLate a = late \<and> lateByMinutes a = lb)
     \<and> \<lfloor>timeDifferenceMinutes e s\<rfloor> = timeDifferenceMs e s div 60000"
proof -
  note p = path_after_timing[OF assms refl]
  have 1: "0 < timeDifferenceMs e s \<and> timeDifferenceMinutes e s \<le> lateLimitOf d \<longrightarrow>
            markAttendance e d req =
              admit_location e d req v u s True (Some \<lfloor>timeDifferenceMinutes e s\<rfloor>) effectsBeforeGate"
    by (simp add: p lateMarking_cases minutes_pos)
  have 2: "lateLimitOf d < timeDifferenceMinutes e s \<and> strictModeOf d \<longrightarrow>
            markAttendance e d req =
              reject (Reject 400 (WINDOW_CLOSED_STRICT \<lfloor>timeDifferenceMinutes e s\<rfloor>
                        (js_rem (timeDifferenceMs e s) 60000 div 1000))) d effectsBeforeGate"
    by (simp add: p lateMarking_cases)
  have 3: "lateLimitOf d < timeDifferenceMinutes e s \<and> \<not> strictModeOf d \<longrightarrow>
            markAttendance e d req =
              admit_location e d req v u s True (Some \<lfloor>timeDifferenceMinutes e s\<rfloor>) effectsBeforeGate"
    by (simp add: p lateMarking_cases)
  have 4: "timeDifferenceMs e s \<le> 0 \<and> 0 \<le> lateLimitOf d \<longrightarrow>
            markAttendance e d req = admit_location e d req v u s False None effectsBeforeGate"
  proof
    assume h: "timeDifferenceMs e s \<le> 0 \<and> 0 \<le> lateLimitOf d"
    then have "timeDifferenceMinutes e s \<le> 0" by (simp add: minutes_le_0)
    with h have "\<not> 0 < timeDifferenceMinutes e s" "\<not> lateLimitOf d < timeDifferenceMinutes e s"
      by linarith+
    then show "markAttendance e d req = admit_location e d req v u s False None effectsBeforeGate"
      by (simp add: p lateMarking_cases)
  qed
  show ?thesis using 1 2 3 4 created_late_fields floor_minutes by blast
qed


theorem lateness_classification_witness:
  "response (markAttendance (ex_env 21000000) ex_db ex_request)
     = Created ((ex_record 21000000)\<lparr>isLate := True, lateByMinutes := Some 20\<rparr>)
   \<and> response (markAttendance (ex_env 21600000) ex_strict_db ex_request)
     = Created ((ex_record 21600000)\<lparr>isLate := True, lateByMinutes := Some 30\<rparr>)
   \<and> markAttendance (ex_env 22530000) ex_strict_db ex_request
     = reject (Reject 400 (WINDOW_CLOSED_STRICT 45 30)) ex_strict_db effectsBeforeGate
   \<and> response (markAttendance (ex_env 22530000) ex_db ex_request)
     = Created ((ex_record 22530000)\<lparr>isLate := True, lateByMinutes := Some 45\<rparr>)
   \<and> response (markAttendance (ex_env 19800000) ex_strict_db ex_request)
     = Created ((ex_record 19800000)\<lparr>isLate := False, lateByMinutes := None\<rparr>)
   \<and> response (markAttendance (ex_env 16200000) ex_db ex_request)
     = Created ((ex_record 16200000)\<lparr>isLate := False, lateByMinutes := None\<rparr>)"
proof -
  note ev = ex_timeDifferenceMs ex_limits timeDifferenceMinutes_def ex_admit_location js_rem_def
  have 1: "response (markAttendance (ex_env 21000000) ex_db ex_request)
     = Created ((ex_record 21000000)\<lparr>isLate := True, lateByMinutes := Some 20\<rparr>)"
    using lateness_classification[OF ex_reachesTiming ex_earlyCheck, of 21000000]
    by (simp add: ev)
  have 2: "response (markAttendance (ex_env 21600000) ex_strict_db ex_request)
     = Created ((ex_record 21600000)\<lparr>isLate := True, lateByMinutes := Some 30\<rparr>)"
    using lateness_classification[OF ex_reachesTiming_strict ex_earlyCheck, of 21600000]
    by (simp add: ev)
  have 3: "markAttendance (ex_env 22530000) ex_strict_db ex_request
     = reject (Reject 400 (WINDOW_CLOSED_STRICT 45 30)) ex_strict_db effectsBeforeGate"
    using lateness_classification[OF ex_reachesTiming_strict ex_earlyCheck, of 22530000]
    by (simp add: ev)
  have 4: "response (markAttendance (ex_env 22530000) ex_db ex_request)
     = Created ((ex_record 22530000)\<lparr>isLate := True, lateByMinutes := Some 45\<rparr>)"
    using lateness_classification[OF ex_reachesTiming ex_earlyCheck, of 22530000]
    by (simp add: ev)
  have 5: "response (markAttendance (ex_env 19800000) ex_strict_db ex_request)
     = Created ((ex_record 19800000)\<lparr>isLate := False, lateByMinutes := None\<rparr>)"
    using lateness_classification[OF ex_reachesTiming_strict ex_earlyCheck, of 19800000]
    by (simp add: ev)
  have 6: "response (markAttendance (ex_env 16200000) ex_db ex_request)
     = Created ((ex_record 16200000)\<lparr>isLate := False, lateByMinutes := None\<rparr>)"
    using lateness_classification[OF ex_reachesTiming ex_earlyCheck, of 16200000]
    by (simp add: ev)
  show ?thesis using 1 2 3 4 5 6 by blast
qed

subsection \<open>Device binding\<close>

text \<open>
  Claim C7. For an attempt that has reached the device step (all earlier steps passed,
  location gate included):
  \<^item> if the user has no registered device, the check-in is admitted and the user document
    is saved with the presented device id and user agent as the registered identity;
  \<^item> if the user has a registered device and the presented id differs, the attempt is
    rejected as a device mismatch and nothing is written;
  \<^item> if the id matches and a registered user agent exists and differs from the presented
    one, the attempt is rejected as cloning and nothing is written;
  \<^item> if the id matches and no user agent was ever registered, the check-in is admitted and
    the user document is left as it is.

  And whatever the schedule, the clock or the location: when the user has a registered
  device and the presented device id is not it, the attempt is rejected and the database is
  unchanged.
\<close>

theorem device_binding:
  "(reachesDevice e d req v u s late lb a res \<longrightarrow>
      (falsy (registeredDeviceId u) \<longrightarrow>
         response (markAttendance e d req) =
           Created (attendanceData e req v (isLocationRequired s a) True late lb res) \<and>
         users (db_after (markAttendance e d req)) (userId req) =
           Some (u\<lparr>registeredDeviceId := Some (v_deviceId v),
                   registeredUserAgent := Some (v_userAgent v)\<rparr>))
    \<and> (\<not> falsy (registeredDeviceId u) \<and> registeredDeviceId u \<noteq> Some (v_deviceId v) \<longrightarrow>
         markAttendance e d req =
           reject (Reject 403 DEVICE_MISMATCH) d
             (effectsBeforeGate @ gateEffects s v (isLocationRequired s a)))
    \<and> (registeredDeviceId u = Some (v_deviceId v) \<and> \<not> falsy (registeredUserAgent u) \<and>
        registeredUserAgent u \<noteq> Some (v_userAgent v) \<longrightarrow>
         markAttendance e d req =
           reject (Reject 403 CLONING_DETECTED) d
             (effectsBeforeGate @ gateEffects s v (isLocationRequired s a)))
    \<and> (registeredDeviceId u = Some (v_deviceId v) \<and> falsy (registeredUserAgent u) \<longrightarrow>
         response (markAttendance e d req) =
           Created (attendanceData e req v (isLocationRequired s a) True late lb res) \<and>
         users (db_after (markAttendance e d req)) = users d))
   \<and> (users d (userId req) = Some u \<and> \<not> falsy (registeredDeviceId u) \<and>
       registeredDeviceId u \<noteq> validDeviceString (deviceId req) \<longrightarrow>
         (\<exists>r. response (markAttendance e d req) = Rejected r) \<and>
         db_after (markAttendance e d req) = d)"
proof -
  have A: "falsy (registeredDeviceId u) \<longrightarrow>
         response (markAttendance e d req) =
           Created (attendanceData e req v (isLocationRequired s a) True late lb res) \<and>
         users (db_after (markAttendance e d req)) (userId req) =
           Some (u\<lparr>registeredDeviceId := Some (v_deviceId v),
                   registeredUserAgent := Some (v_userAgent v)\<rparr>)"
    if r: "reachesDevice e d req v u s late lb a res"
    by (simp add: outcome_device[OF r] deviceBinding_def respond_def Let_def)
  have B: "\<not> falsy (registeredDeviceId u) \<and> registeredDeviceId u \<noteq> Some (v_deviceId v) \<longrightarrow>
         markAttendance e d req =
           reject (Reject 403 DEVICE_MISMATCH) d
             (effectsBeforeGate @ gateEffects s v (isLocationRequired s a))"
    if r: "reachesDevice e d req v u s late lb a res"
    by (simp add: outcome_device[OF r] deviceBinding_def)
  have nf: "\<not> falsy (Some (v_deviceId v))" if r: "reachesDevice e d req v u s late lb a res"
  proof -
    from r have "validateRequest req = Inr v"
      by (simp add: reachesDevice_def reachesLocation_def reachesTiming_def reachesSchedule_def)
    from validateRequest_Inr[OF this] validDeviceString_Some show ?thesis
      by (auto simp: falsy_def)
  qed
  have C: "registeredDeviceId u = Some (v_deviceId v) \<and> \<not> falsy (registeredUserAgent u) \<and>
        registeredUserAgent u \<noteq> Some (v_userAgent v) \<longrightarrow>
         markAttendance e d req =
           reject (Reject 403 CLONING_DETECTED) d
             (effectsBeforeGate @ gateEffects s v (isLocationRequired s a))"
    if r: "reachesDevice e d req v u s late lb a res"
    using nf[OF r] by (auto simp: outcome_device[OF r] deviceBinding_def)
  have D: "registeredDeviceId u = Some (v_deviceId v) \<and> falsy (registeredUserAgent u) \<longrightarrow>
         response (markAttendance e d req) =
           Created (attendanceData e req v (isLocationRequired s a) True late lb res) \<and>
         users (db_after (markAttendance e d req)) = users d"
    if r: "reachesDevice e d req v u s late lb a res"
    using nf[OF r] by (auto simp: outcome_device[OF r] deviceBinding_def respond_def Let_def)
  have E: "(\<exists>r. response (markAttendance e d req) = Rejected r) \<and>
         db_after (markAttendance e d req) = d"
    if h: "users d (userId req) = Some u" "\<not> falsy (registeredDeviceId u)"
       "registeredDeviceId u \<noteq> validDeviceString (deviceId req)"
  proof -
    have nc: "response (markAttendance e d req) \<noteq> Created rec" for rec
    proof
      assume "response (markAttendance e d req) = Created rec"
      from created_markAttendance[OF this] obtain v' u' s' late' lb' a' res' x where
        rd: "reachesDevice e d req v' u' s' late' lb' a' res'" and db: "deviceBinding u' v' = Inr x"
        by blast
      from rd have v': "validateRequest req = Inr v'" and u': "users d (userId req) = Some u'"
        by (simp_all add: reachesDevice_def reachesLocation_def reachesTiming_def
            reachesSchedule_def)
      from u' h(1) have "u' = u" by simp
      with db h(2) have "registeredDeviceId u = Some (v_deviceId v')"
        by (simp add: deviceBinding_Inr)
      with validateRequest_Inr[OF v'] h(3) show False by simp
    qed
    from markAttendance_db[of d e req] nc show ?thesis
      by (cases "response (markAttendance e d req)") (auto simp: persistsOnlyCreated_def)
  qed
  show ?thesis using A B C D E by blast
qed


theorem device_binding_witness:
  "response (markAttendance (ex_env 16200000) (ex_db_user ex_new_user)
       (ex_request_from ''device123'' ''Mozilla/5.0'')) = Created (ex_record 16200000)
   \<and> users (db_after (markAttendance (ex_env 16200000) (ex_db_user ex_new_user)
       (ex_request_from ''device123'' ''Mozilla/5.0''))) ''user123'' = Some ex_user
   \<and> markAttendance (ex_env 16200000) (ex_db_user ex_user)
       (ex_request_from ''other-device'' ''Mozilla/5.0'')
     = reject (Reject 403 DEVICE_MISMATCH) (ex_db_user ex_user)
         (effectsBeforeGate @ [ex_verify_effect])
   \<and> markAttendance (ex_env 16200000) (ex_db_user ex_user)
       (ex_request_from ''device123'' ''curl/8.0'')
     = reject (Reject 403 CLONING_DETECTED) (ex_db_user ex_user)
         (effectsBeforeGate @ [ex_verify_effect])
   \<and> response (markAttendance (ex_env 16200000) (ex_db_user ex_legacy_user)
       (ex_request_from ''device123'' ''curl/8.0'')) = Created (ex_record 16200000)
   \<and> users (db_after (markAttendance (ex_env 16200000) (ex_db_user ex_legacy_user)
       (ex_request_from ''device123'' ''curl/8.0''))) = users (ex_db_user ex_legacy_user)
   \<and> (\<exists>r. response (markAttendance (ex_env 102600000) (ex_db_user ex_user)
       (ex_request_from ''other-device'' ''Mozilla/5.0'')) = Rejected r)"
proof -
  note ev = ex_new_user_def ex_legacy_user_def ex_user_def falsy_def ex_validated_def
    attendanceData_def ex_record_def ex_result_def isLocationRequired_def ex_session_def
    ex_assigned_def gateEffects_def verifyCall_def ex_verify_effect_def ex_env_def
    ex_request_from_def ex_request_def utf16_def Let_def
  have 1: "response (markAttendance (ex_env 16200000) (ex_db_user ex_new_user)
       (ex_request_from ''device123'' ''Mozilla/5.0'')) = Created (ex_record 16200000)
     \<and> users (db_after (markAttendance (ex_env 16200000) (ex_db_user ex_new_user)
       (ex_request_from ''device123'' ''Mozilla/5.0''))) ''user123'' = Some ex_user"
    using device_binding[of "ex_env 16200000" "ex_db_user ex_new_user"
        "ex_request_from ''device123'' ''Mozilla/5.0''"
        "ex_validated\<lparr>v_deviceId := utf16 ''device123'', v_userAgent := utf16 ''Mozilla/5.0''\<rparr>"
        ex_new_user ex_session False None ex_assigned "Some ex_result"]
      ex_reachesDevice[of "''device123''" "''Mozilla/5.0''" ex_new_user] ex_strings
    by (simp add: ev)
  have 2: "markAttendance (ex_env 16200000) (ex_db_user ex_user)
       (ex_request_from ''other-device'' ''Mozilla/5.0'')
     = reject (Reject 403 DEVICE_MISMATCH) (ex_db_user ex_user)
         (effectsBeforeGate @ [ex_verify_effect])"
    using device_binding[of "ex_env 16200000" "ex_db_user ex_user"
        "ex_request_from ''other-device'' ''Mozilla/5.0''"
        "ex_validated\<lparr>v_deviceId := utf16 ''other-device'', v_userAgent := utf16 ''Mozilla/5.0''\<rparr>"
        ex_user ex_session False None ex_assigned "Some ex_result"]
      ex_reachesDevice[of "''other-device''" "''Mozilla/5.0''" ex_user] ex_strings
    by (simp add: ev)
  have 3: "markAttendance (ex_env 16200000) (ex_db_user ex_user)
       (ex_request_from ''device123'' ''curl/8.0'')
     = reject (Reject 403 CLONING_DETECTED) (ex_db_user ex_user)
         (effectsBeforeGate @ [ex_verify_effect])"
    using device_binding[of "ex_env 16200000" "ex_db_user ex_user"
        "ex_request_from ''device123'' ''curl/8.0''"
        "ex_validated\<lparr>v_deviceId := utf16 ''device123'', v_userAgent := utf16 ''curl/8.0''\<rparr>"
        ex_user ex_session False None ex_assigned "Some ex_result"]
      ex_reachesDevice[of "''device123''" "''curl/8.0''" ex_user] ex_strings
    by (simp add: ev)
  have 4: "response (markAttendance (ex_env 16200000) (ex_db_user ex_legacy_user)
       (ex_request_from ''device123'' ''curl/8.0'')) = Created (ex_record 16200000)
     \<and> users (db_after (markAttendance (ex_env 16200000) (ex_db_user ex_legacy_user)
       (ex_request_from ''device123'' ''curl/8.0''))) = users (ex_db_user ex_legacy_user)"
    using device_binding[of "ex_env 16200000" "ex_db_user ex_legacy_user"
        "ex_request_from ''device123'' ''curl/8.0''"
        "ex_validated\<lparr>v_deviceId := utf16 ''device123'', v_userAgent := utf16 ''curl/8.0''\<rparr>"
        ex_legacy_user ex_session False None ex_assigned "Some ex_result"]
      ex_reachesDevice[of "''device123''" "''curl/8.0''" ex_legacy_user] ex_strings
    by (simp add: ev)
  have 5: "\<exists>r. response (markAttendance (ex_env 102600000) (ex_db_user ex_user)
       (ex_request_from ''other-device'' ''Mozilla/5.0'')) = Rejected r"
    using device_binding[of "ex_env 102600000" "ex_db_user ex_user"
        "ex_request_from ''other-device'' ''Mozilla/5.0''" _ ex_user]
    by (simp add: ex_db_user_def ex_db_def ex_request_from_def ex_request_def ex_user_def
        falsy_def validDeviceString_def trimIsEmpty_def isWhiteSpace_def utf16_def)
  show ?thesis using 1 2 3 4 5 by blast
qed

subsection \<open>Location verification\<close>

text \<open>
  Claim C1, for the records that \<^verbatim>\<open>markAttendance\<close> writes. An attempt either appends the
  one record it returns or leaves the database as it was. Every record it creates has
  \<open>locationVerified\<close> true. When the session is physical, or hybrid with this user
  assigned in physical mode, a created record implies that the verification service was
  called with this request's latitude, longitude and accuracy (and the session's city, state
  and geofence), that this call returned a result with \<open>isValid\<close> true, and that the record
  stores this result's snapshot. And when, for such a session, the service throws or
  returns no valid result, an attempt that has reached the location step is rejected with 403
  and nothing is written.

  The records that \<^verbatim>\<open>forceMarkAttendance\<close> writes are the exception. It marks a user
  present exactly when the request has passed the validators, comes from the platform
  owner, and names valid ids of an existing user and an existing session; the session's
  type and location play no part. Then no call of the verification service is logged, and
  afterwards the collection holds a record of this user and session with
  \<open>locationVerified\<close> true: if there was none, the new record is appended; if there was
  one, the first such record has \<open>locationVerified\<close> set and its late mark cleared, and
  every other record is as before. Nothing that \<^verbatim>\<open>forceMarkAttendance\<close> does depends on
  the verification service.
\<close>

theorem location_verified_records:
  "persistsOnlyCreated d (markAttendance e d req)
   \<and> (\<forall>rec. response (markAttendance e d req) = Created rec \<longrightarrow> locationVerified rec)
   \<and> (\<forall>rec s a. response (markAttendance e d req) = Created rec \<and>
         sessions d (sessionId req) = Some s \<and> findAssignment s (userId req) = Some a \<and>
         (sessionType s = PHYSICAL \<or> (sessionType s = HYBRID \<and> mode a = PHYSICAL_MODE)) \<longrightarrow>
         (\<exists>lat lng acc res.
            asNumber (getProp (userLocation req) ''latitude'') = Some lat \<and>
            asNumber (getProp (userLocation req) ''longitude'') = Some lng \<and>
            asNumber (accuracy req) = Some acc \<and>
            verifyLocation e lat lng acc (sessionCity s) (sessionState s) (geofence s)
              = Inr (Some res) \<and>
            isValid res \<and>
            VerifyLocation lat lng acc (sessionCity s) (sessionState s) (geofence s)
              \<in> set (effects (markAttendance e d req)) \<and>
            locationVerified rec \<and>
            reverseGeocodeSnapshot rec = reverseGeocode res \<and>
            a_confidenceScore rec = confidenceScore res \<and>
            a_accuracyRadius rec = accuracyRadius res \<and>
            a_userLocation rec = Some (lat, lng)))
   \<and> (\<forall>v u s late lb a. reachesLocation e d req v u s late lb \<and>
         findAssignment s (userId req) = Some a \<and>
         (sessionType s = PHYSICAL \<or> (sessionType s = HYBRID \<and> mode a = PHYSICAL_MODE)) \<and>
         (\<forall>res. verifyLocation e (v_latitude v) (v_longitude v) (v_accuracyRadius v)
            (sessionCity s) (sessionState s) (geofence s) = Inr (Some res) \<longrightarrow> \<not> isValid res) \<longrightarrow>
         (\<exists>msg. markAttendance e d req =
            reject (Reject 403 (MAPMYINDIA_VERIFICATION_FAILED msg)) d
              (effectsBeforeGate @ [verifyCall s v])))
   \<and> (response (forceMarkAttendance e d q) = ForceMarked ''Present'' \<longleftrightarrow>
        f_validationErrors q = [] \<and> f_role q = ''PLATFORM_OWNER'' \<and>
        isValidObjectId e (f_sessionId q) \<and> isValidObjectId e (f_userId q) \<and>
        f_status q = ''Present'' \<and> users d (f_userId q) \<noteq> None \<and>
        sessions d (f_sessionId q) \<noteq> None)
   \<and> (response (forceMarkAttendance e d q) = ForceMarked ''Present'' \<longrightarrow>
        \<not> list_ex isVerifyLocation (effects (forceMarkAttendance e d q))
      \<and> (attendanceOf (f_userId q) (f_sessionId q) (attendances d) = None \<longrightarrow>
           attendances (db_after (forceMarkAttendance e d q)) = attendances d @ [forcedRecord e q] \<and>
           locationVerified (forcedRecord e q))
      \<and> (\<forall>x. attendanceOf (f_userId q) (f_sessionId q) (attendances d) = Some x \<longrightarrow>
           (\<exists>pre post. attendances d = pre @ x # post \<and>
              attendanceOf (f_userId q) (f_sessionId q) pre = None \<and>
              attendances (db_after (forceMarkAttendance e d q)) =
                pre @ x\<lparr>locationVerified := True, isLate := False, lateByMinutes := None\<rparr> # post))
      \<and> (\<exists>r. attendanceOf (f_userId q) (f_sessionId q)
                (attendances (db_after (forceMarkAttendance e d q))) = Some r \<and>
              locationVerified r))
   \<and> (\<forall>f. forceMarkAttendance (e\<lparr>verifyLocation := f\<rparr>) d q = forceMarkAttendance e d q)"
proof -
  have 3: "\<forall>rec s a. response (markAttendance e d req) = Created rec \<and>
         sessions d (sessionId req) = Some s \<and> findAssignment s (userId req) = Some a \<and>
         (sessionType s = PHYSICAL \<or> (sessionType s = HYBRID \<and> mode a = PHYSICAL_MODE)) \<longrightarrow>
         (\<exists>lat lng acc res.
            asNumber (getProp (userLocation req) ''latitude'') = Some lat \<and>
            asNumber (getProp (userLocation req) ''longitude'') = Some lng \<and>
            asNumber (accuracy req) = Some acc \<and>
            verifyLocation e lat lng acc (sessionCity s) (sessionState s) (geofence s)
              = Inr (Some res) \<and>
            isValid res \<and>
            VerifyLocation lat lng acc (sessionCity s) (sessionState s) (geofence s)
              \<in> set (effects (markAttendance e d req)) \<and>
            locationVerified rec \<and>
            reverseGeocodeSnapshot rec = reverseGeocode res \<and>
            a_confidenceScore rec = confidenceScore res \<and>
            a_accuracyRadius rec = accuracyRadius res \<and>
            a_userLocation rec = Some (lat, lng))"
    using created_verified[of e d req] unfolding isLocationRequired_iff by blast
  have 4: "\<forall>v u s late lb a. reachesLocation e d req v u s late lb \<and>
         findAssignment s (userId req) = Some a \<and>
         (sessionType s = PHYSICAL \<or> (sessionType s = HYBRID \<and> mode a = PHYSICAL_MODE)) \<and>
         (\<forall>res. verifyLocation e (v_latitude v) (v_longitude v) (v_accuracyRadius v)
            (sessionCity s) (sessionState s) (geofence s) = Inr (Some res) \<longrightarrow> \<not> isValid res) \<longrightarrow>
         (\<exists>msg. markAttendance e d req =
            reject (Reject 403 (MAPMYINDIA_VERIFICATION_FAILED msg)) d
              (effectsBeforeGate @ [verifyCall s v]))"
    using gate_failure[of e d req] unfolding isLocationRequired_iff by blast
  have 5: "response (forceMarkAttendance e d q) = ForceMarked ''Present'' \<longleftrightarrow>
        f_validationErrors q = [] \<and> f_role q = ''PLATFORM_OWNER'' \<and>
        isValidObjectId e (f_sessionId q) \<and> isValidObjectId e (f_userId q) \<and>
        f_status q = ''Present'' \<and> users d (f_userId q) \<noteq> None \<and>
        sessions d (f_sessionId q) \<noteq> None"
    unfolding forceMarked_iff by auto
  have 6: "response (forceMarkAttendance e d q) = ForceMarked ''Present'' \<longrightarrow>
        \<not> list_ex isVerifyLocation (effects (forceMarkAttendance e d q))
      \<and> (attendanceOf (f_userId q) (f_sessionId q) (attendances d) = None \<longrightarrow>
           attendances (db_after (forceMarkAttendance e d q)) = attendances d @ [forcedRecord e q] \<and>
           locationVerified (forcedRecord e q))
      \<and> (\<forall>x. attendanceOf (f_userId q) (f_sessionId q) (attendances d) = Some x \<longrightarrow>
           (\<exists>pre post. attendances d = pre @ x # post \<and>
              attendanceOf (f_userId q) (f_sessionId q) pre = None \<and>
              attendances (db_after (forceMarkAttendance e d q)) =
                pre @ x\<lparr>locationVerified := True, isLate := False, lateByMinutes := None\<rparr> # post))
      \<and> (\<exists>r. attendanceOf (f_userId q) (f_sessionId q)
                (attendances (db_after (forceMarkAttendance e d q))) = Some r \<and>
              locationVerified r)"
    using force_present(1)[of e d q] force_present_records[of e d q] by blast
  have 7: "\<forall>f. forceMarkAttendance (e\<lparr>verifyLocation := f\<rparr>) d q = forceMarkAttendance e d q"
    by (simp add: force_independent)
  show ?thesis
    using markAttendance_db[of d e req] created_locationVerified[of e d req] 3 4 5 6 7 by blast
qed

theorem location_verified_records_witness:
  "response (markAttendance (ex_env 16200000) ex_db ex_request) = Created (ex_record 16200000)
   \<and> locationVerified (ex_record 16200000)
   \<and> attendances (db_after (markAttendance (ex_env 16200000) ex_db ex_request))
       = [ex_record 16200000]
   \<and> verifyLocation (ex_env 16200000) (Fin 28.6139) (Fin 77.2090) (Fin 20) (Some ''New Delhi'')
        (Some ''Delhi'') None = Inr (Some ex_result)
   \<and> isValid ex_result
   \<and> ex_verify_effect \<in> set (effects (markAttendance (ex_env 16200000) ex_db ex_request))
   \<and> markAttendance (ex_env_unavailable 16200000) ex_db ex_request
       = reject (Reject 403 (MAPMYINDIA_VERIFICATION_FAILED
            ''Location verification service is temporarily unavailable. Attendance not marked.''))
           ex_db (effectsBeforeGate @ [ex_verify_effect])
   \<and> response (forceMarkAttendance (ex_env_unavailable 16200000)
        (ex_db\<lparr>attendances := [ex_unverified_record]\<rparr>) ex_force_request) = ForceMarked ''Present''
   \<and> attendances (db_after (forceMarkAttendance (ex_env_unavailable 16200000)
        (ex_db\<lparr>attendances := [ex_unverified_record]\<rparr>) ex_force_request))
       = [ex_remote_record 16200000]
   \<and> locationVerified (ex_remote_record 16200000)
   \<and> effects (forceMarkAttendance (ex_env_unavailable 16200000)
        (ex_db\<lparr>attendances := [ex_unverified_record]\<rparr>) ex_force_request)
       = [FindUserAndSession, FindAttendance, SaveAttendance, SaveSession, AuditLogCreate]
   \<and> attendances (db_after (forceMarkAttendance (ex_env_unavailable 16200000) ex_db
        ex_force_request))
       = [forcedRecord (ex_env_unavailable 16200000) ex_force_request]"
proof -
  have c: "response (markAttendance (ex_env 16200000) ex_db ex_request) = Created (ex_record 16200000)"
    by (simp add: ex_defs eval_defs ex_record_def)
  have v: "locationVerified (ex_record 16200000)"
    by (rule location_verified_records[THEN conjunct2, THEN conjunct1, rule_format, OF c])
  have p: "persistsOnlyCreated ex_db (markAttendance (ex_env 16200000) ex_db ex_request)"
    by (rule location_verified_records[THEN conjunct1])
  have a: "attendances (db_after (markAttendance (ex_env 16200000) ex_db ex_request))
       = [ex_record 16200000]"
    using p c by (simp add: persistsOnlyCreated_def ex_db_def)
  have o: "verifyLocation (ex_env 16200000) (Fin 28.6139) (Fin 77.2090) (Fin 20) (Some ''New Delhi'')
        (Some ''Delhi'') None = Inr (Some ex_result)" "isValid ex_result"
    by (simp_all add: ex_env_def ex_verify_ok_def ex_result_def)
  have s: "sessions ex_db (sessionId ex_request) = Some ex_session"
      "findAssignment ex_session (userId ex_request) = Some ex_assigned"
      "sessionType ex_session = PHYSICAL"
    by (simp_all add: ex_db_def ex_request_fields findAssignment_def ex_session_def ex_assigned_def)
  from location_verified_records[THEN conjunct2, THEN conjunct2, THEN conjunct1, rule_format,
      of "ex_env 16200000" ex_db ex_request "ex_record 16200000" ex_session ex_assigned] c s
  obtain lat lng acc where
    "asNumber (getProp (userLocation ex_request) ''latitude'') = Some lat"
    "asNumber (getProp (userLocation ex_request) ''longitude'') = Some lng"
    "asNumber (accuracy ex_request) = Some acc"
    "VerifyLocation lat lng acc (sessionCity ex_session) (sessionState ex_session)
       (geofence ex_session) \<in> set (effects (markAttendance (ex_env 16200000) ex_db ex_request))"
    by blast
  then have f: "ex_verify_effect \<in> set (effects (markAttendance (ex_env 16200000) ex_db ex_request))"
    by (simp add: ex_request_def ex_session_def ex_verify_effect_def)
  have u: "markAttendance (ex_env_unavailable 16200000) ex_db ex_request
       = reject (Reject 403 (MAPMYINDIA_VERIFICATION_FAILED
            ''Location verification service is temporarily unavailable. Attendance not marked.''))
           ex_db (effectsBeforeGate @ [ex_verify_effect])"
    by (simp add: ex_defs eval_defs ex_verify_effect_def ex_env_unavailable_def
        ex_verify_unavailable_def effectsBeforeGate_def)
  let ?e = "ex_env_unavailable 16200000" and ?d = "ex_db\<lparr>attendances := [ex_unverified_record]\<rparr>"
  note fd = ex_force_request_def ex_env_unavailable_def ex_env_def ex_db_def
  note force = location_verified_records[THEN conjunct2, THEN conjunct2, THEN conjunct2,
      THEN conjunct2]
  have fa: "response (forceMarkAttendance ?e ?d ex_force_request) = ForceMarked ''Present''"
    using force[THEN conjunct1, of ?e ?d ex_force_request] by (simp add: fd)
  have fx: "attendanceOf (f_userId ex_force_request) (f_sessionId ex_force_request) (attendances ?d)
      = Some ex_unverified_record"
    by (simp add: attendanceOf_def fd ex_unverified_record_def ex_remote_record_def ex_record_def)
  from force[THEN conjunct2, THEN conjunct1, THEN mp, OF fa, THEN conjunct2, THEN conjunct2,
      THEN conjunct1, rule_format, OF fx]
  obtain pre post where
    pp: "attendances ?d = pre @ ex_unverified_record # post"
    and fr: "attendances (db_after (forceMarkAttendance ?e ?d ex_force_request)) =
      pre @ ex_unverified_record\<lparr>locationVerified := True, isLate := False,
              lateByMinutes := None\<rparr> # post"
    by blast
  from pp have "pre = [] \<and> post = []" by (simp add: Cons_eq_append_conv)
  with fr have fu: "attendances (db_after (forceMarkAttendance ?e ?d ex_force_request))
       = [ex_remote_record 16200000]"
    by (simp add: ex_unverified_record_def ex_remote_record_def ex_record_def)
  have fv: "locationVerified (ex_remote_record 16200000)"
    by (simp add: ex_remote_record_def ex_record_def)
  have fe: "effects (forceMarkAttendance ?e ?d ex_force_request)
       = [FindUserAndSession, FindAttendance, SaveAttendance, SaveSession, AuditLogCreate]"
    by (simp add: forceMarkAttendance_def forceRoster_def findAssignment_def respond_def fd
        ex_session_def ex_assigned_def ex_user_def ex_unverified_record_def ex_remote_record_def
        ex_record_def Let_def)
  have ga: "response (forceMarkAttendance ?e ex_db ex_force_request) = ForceMarked ''Present''"
    using force[THEN conjunct1, of ?e ex_db ex_force_request] by (simp add: fd)
  have gn: "attendanceOf (f_userId ex_force_request) (f_sessionId ex_force_request)
      (attendances ex_db) = None"
    by (simp add: attendanceOf_def ex_db_def)
  from force[THEN conjunct2, THEN conjunct1, THEN mp, OF ga, THEN conjunct2, THEN conjunct1,
      THEN mp, OF gn]
  have gc: "attendances (db_after (forceMarkAttendance ?e ex_db ex_force_request))
       = [forcedRecord ?e ex_force_request]"
    by (simp add: ex_db_def)
  show ?thesis using c v a o f u fa fu fv fe gc by blast
qed

text \<open>
  The claim as the specification words it speaks of every attendance record. The
  platform owner's \<^verbatim>\<open>forceMarkAttendance\<close> writes a record with \<open>locationVerified\<close> true for
  a physical session without calling the verification service, here with the service down.
\<close>

theorem force_mark_counterexample:
  "sessions ex_db ''s1'' = Some ex_session
   \<and> sessionType ex_session = PHYSICAL
   \<and> forceMarkAttendance (ex_env_unavailable 16200000) ex_db ex_force_request
     = respond (ForceMarked ''Present'')
         (ex_db\<lparr>attendances := [forcedRecord (ex_env_unavailable 16200000) ex_force_request],
            sessions := [''s1'' \<mapsto> ex_session\<lparr>
               assignedUsers := [ex_assigned\<lparr>attendanceStatus := ''Present''\<rparr>]\<rparr>]\<rparr>)
         [FindUserAndSession, FindAttendance, SaveAttendance, SaveSession, AuditLogCreate]
   \<and> locationVerified (forcedRecord (ex_env_unavailable 16200000) ex_force_request)
   \<and> a_sessionId (forcedRecord (ex_env_unavailable 16200000) ex_force_request) = ''s1''
   \<and> verifyLocation (ex_env_unavailable 16200000) = ex_verify_unavailable"
  by (simp add: forceMarkAttendance_def forceRoster_def forcedRecord_def findAssignment_def
      respond_def reject_def ex_force_request_def ex_env_unavailable_def ex_defs Let_def)

end
